theory Spec2Isabelle
  imports Complex_Main "HOL-Library.AList" "HOL-Library.Multiset"
begin

section \<open>Data model of \<open>benchmarking.py\<close>\<close>

text \<open>
  A dataset entry is the dictionary \<^verbatim>\<open>{'id': ..., 'audio': {'array': ..., 'sampling_rate': ...}}\<close>.
  Audio samples are floating-point numbers; the script never computes with them itself
  (it only pads arrays and hands them to its collaborators), so they are kept as reals.
\<close>

type_synonym sample = real
type_synonym array = "sample list"

record entry =
  entry_id :: string
  audio_array :: array
  sampling_rate :: nat

text \<open>The only exception the script's own code can raise: a failed subscript of a dictionary.\<close>

datatype error = KeyError string

text \<open>
  \<^verbatim>\<open>AudioSignal(array, sampling_rate)\<close> of the external audio library: the script builds
  it from an array and a rate and reads its \<^verbatim>\<open>duration\<close>. The duration and the metrics
  function are collaborators outside the repository's sources; every function below that
  calls them takes them as the parameters \<open>duration\<close> and \<open>get_metrics\<close>.
\<close>

record AudioSignal =
  audio_data :: array
  sample_rate :: nat

text \<open>
  A metric value is a Python float, an IEEE 754 binary64 value: not-a-number, an infinity, or
  a finite number, kept as the real it denotes (the sign of zero is not tracked).
\<close>

datatype mval = NaN | PInf | NInf | Num real

text \<open>
  A metrics record is a dictionary from metric name to value, an aggregated result one from
  metric name to mean; both are kept in insertion order. The loaded dataset \<open>c\<close> is a
  dictionary from split name to the split's entries.
\<close>

type_synonym metrics = "(string \<times> mval) list"
type_synonym model_result = "(string \<times> mval) list"
type_synonym result_data = "(string \<times> model_result) list"
type_synonym dataset_dict = "(string \<times> entry list) list"
type_synonym id_dict = "string \<rightharpoonup> array"

section \<open>Collaborators\<close>

text \<open>
  Modelled from the spec: \<^verbatim>\<open>codec.general.pad_arrays_to_match\<close> is imported by the script
  and is not among the sources. The spec: "Pad the shorter of the two arrays (original,
  resynthesized) to match the longer", the fill value being zero; "after padding, both
  compared arrays have equal length equal to the max of their original lengths; no samples
  from the longer array are truncated".
\<close>

definition pad_arrays_to_match :: "array \<Rightarrow> array \<Rightarrow> array \<times> array" where
  "pad_arrays_to_match array1 array2 =
     (if length array1 < length array2
      then (array1 @ replicate (length array2 - length array1) 0, array2)
      else if length array2 < length array1
      then (array1, array2 @ replicate (length array1 - length array2) 0)
      else (array1, array2))"

text \<open>
  Modelled from the spec: the duration that the audio-signal abstraction exposes, in seconds:
  the number of samples over the sampling rate. It is the instance of the parameter
  \<open>duration\<close> used wherever a run is evaluated on concrete data (always at a positive rate).
\<close>

definition signal_duration :: "AudioSignal \<Rightarrow> real" where
  "signal_duration s = real (length (audio_data s)) / real (sample_rate s)"

subsection \<open>Float arithmetic\<close>

text \<open>
  The sums and the quotient of \<^verbatim>\<open>np.nanmean\<close> are binary64 operations: each result is
  the exact result rounded to the nearest value with a 53-bit significand, ties to the even
  significand, and to an infinity from \<open>2 ^ 1024\<close> on. \<open>exponent64\<close> finds the binade of
  a value by halving or doubling it (no lower than the exponent \<open>- 1022\<close> of the subnormal
  range; the fuel covers the whole range of exponents), \<open>ulp64\<close> is the spacing of the
  binary64 values there.
\<close>

definition round_half_even :: "real \<Rightarrow> int" where
  "round_half_even y =
     (if y - of_int \<lfloor>y\<rfloor> < 1 / 2 then \<lfloor>y\<rfloor>
      else if 1 / 2 < y - of_int \<lfloor>y\<rfloor> then \<lfloor>y\<rfloor> + 1
      else if even \<lfloor>y\<rfloor> then \<lfloor>y\<rfloor> else \<lfloor>y\<rfloor> + 1)"

fun exponent_search :: "nat \<Rightarrow> real \<Rightarrow> int \<Rightarrow> int" where
  "exponent_search 0 a e = e"
| "exponent_search (Suc fuel) a e =
     (if 2 \<le> a then exponent_search fuel (a / 2) (e + 1)
      else if a < 1 \<and> - 1022 < e then exponent_search fuel (a * 2) (e - 1)
      else e)"

definition exponent64 :: "real \<Rightarrow> int" where
  "exponent64 x = exponent_search 2200 \<bar>x\<bar> 0"

definition ulp64 :: "real \<Rightarrow> real" where
  "ulp64 x =
     (if 52 \<le> exponent64 x then 2 ^ nat (exponent64 x - 52)
      else 1 / 2 ^ nat (52 - exponent64 x))"

definition round64 :: "real \<Rightarrow> mval" where
  "round64 x =
     (if x = 0 then Num 0
      else if 2 ^ 1024 \<le> of_int (round_half_even (\<bar>x\<bar> / ulp64 x)) * ulp64 x
      then (if 0 < x then PInf else NInf)
      else Num (sgn x * (of_int (round_half_even (\<bar>x\<bar> / ulp64 x)) * ulp64 x)))"

text \<open>Float addition, and the division of a float by a count (an integer below \<open>2 ^ 53\<close>).\<close>

fun fadd :: "mval \<Rightarrow> mval \<Rightarrow> mval" where
  "fadd (Num a) (Num b) = round64 (a + b)"
| "fadd NaN y = NaN"
| "fadd x NaN = NaN"
| "fadd PInf NInf = NaN"
| "fadd NInf PInf = NaN"
| "fadd PInf y = PInf"
| "fadd NInf y = NInf"
| "fadd x PInf = PInf"
| "fadd x NInf = NInf"

definition fdiv_count :: "mval \<Rightarrow> nat \<Rightarrow> mval" where
  "fdiv_count tot cnt =
     (case tot of
        Num x \<Rightarrow>
          (if cnt = 0 then (if x = 0 then NaN else if 0 < x then PInf else NInf)
           else round64 (x / real cnt))
      | other \<Rightarrow> other)"

subsection \<open>\<open>np.nanmean\<close>\<close>

text \<open>
  The numerical library adds up a float array by pairwise summation: fewer than eight values
  one after the other, starting from zero; up to 128 values with eight running sums that are
  combined at the end, the values left over added one after the other; more values by halves
  (the first half a multiple of eight long).
\<close>

definition combine8 :: "mval list \<Rightarrow> mval" where
  "combine8 r =
     fadd (fadd (fadd (r ! 0) (r ! 1)) (fadd (r ! 2) (r ! 3)))
          (fadd (fadd (r ! 4) (r ! 5)) (fadd (r ! 6) (r ! 7)))"

definition block_sum :: "mval list \<Rightarrow> mval" where
  "block_sum a =
     (let n = length a;
          r = fold (\<lambda>i r. map2 fadd r (take 8 (drop i a)))
                (map (\<lambda>j. 8 * j) [1 ..< (n - n mod 8) div 8]) (take 8 a)
      in foldl fadd (combine8 r) (drop (n - n mod 8) a))"

function pairwise_sum :: "mval list \<Rightarrow> mval" where
  "pairwise_sum a =
     (if length a < 8 then foldl fadd (Num 0) a
      else if length a \<le> 128 then block_sum a
      else fadd (pairwise_sum (take (length a div 2 - (length a div 2) mod 8) a))
                (pairwise_sum (drop (length a div 2 - (length a div 2) mod 8) a)))"
  by pat_completeness auto
termination
  by (relation "measure length") auto

declare pairwise_sum.simps [simp del]

text \<open>
  \<^verbatim>\<open>np.nanmean\<close> on a list of floats: not-a-number values are replaced by zero, the array is
  added up onto the initial value zero, and the total is divided by the number of values that
  are not not-a-number (zero by zero giving not-a-number).
\<close>

definition replace_nan :: "mval \<Rightarrow> mval" where
  "replace_nan v = (case v of NaN \<Rightarrow> Num 0 | other \<Rightarrow> other)"

definition nanmean :: "mval list \<Rightarrow> mval" where
  "nanmean v =
     fdiv_count (fadd (Num 0) (pairwise_sum (map replace_nan v)))
       (length (filter (\<lambda>x. x \<noteq> NaN) v))"

section \<open>The script\<close>

subsection \<open>\<open>compute_metrics\<close>\<close>

text \<open>
  The subscript \<^verbatim>\<open>id_dict[entry['id']]\<close> is an argument of the padding call, so it is
  evaluated first and raises before anything else happens. The duration tested is that of
  the padded original array. \<open>None\<close> is the Python \<^verbatim>\<open>None\<close> of a skipped entry.
\<close>

definition compute_metrics ::
  "(AudioSignal \<Rightarrow> AudioSignal \<Rightarrow> metrics) \<Rightarrow> (AudioSignal \<Rightarrow> real) \<Rightarrow>
   entry \<Rightarrow> id_dict \<Rightarrow> int \<Rightarrow> error + metrics option" where
  "compute_metrics get_metrics duration entry id_dict max_duration =
     (case id_dict (entry_id entry) of
        None \<Rightarrow> Inl (KeyError (entry_id entry))
      | Some resynth \<Rightarrow>
          (let (original_arrays, resynth_array) =
                 pad_arrays_to_match (audio_array entry) resynth;
               rate = sampling_rate entry;
               original_signal = \<lparr>audio_data = original_arrays, sample_rate = rate\<rparr>
           in if duration original_signal > real_of_int max_duration then Inr None
              else (let model_signal = \<lparr>audio_data = resynth_array, sample_rate = rate\<rparr>
                    in Inr (Some (get_metrics original_signal model_signal)))))"

subsection \<open>\<open>batched_dataset\<close>\<close>

text \<open>
  The generator, as the list of the batches it yields. \<open>batched_loop\<close> is the \<^verbatim>\<open>for\<close> loop
  with the buffer \<open>batch\<close> as it stands before the next item; the equation for the empty
  dataset is the flush after the loop.
\<close>

fun batched_loop :: "'a list \<Rightarrow> int \<Rightarrow> 'a list \<Rightarrow> 'a list list" where
  "batched_loop [] batch_size batch = (if batch \<noteq> [] then [batch] else [])"
| "batched_loop (item # dataset) batch_size batch =
     (if int (length (batch @ [item])) = batch_size
      then (batch @ [item]) # batched_loop dataset batch_size []
      else batched_loop dataset batch_size (batch @ [item]))"

definition batched_dataset :: "'a list \<Rightarrow> int \<Rightarrow> 'a list list" where
  "batched_dataset dataset batch_size = batched_loop dataset batch_size []"

subsection \<open>\<open>process_entry\<close>\<close>

text \<open>
  What the iteration hands to \<open>process_entry\<close>: a dictionary (one entry, streaming mode) or a
  list of them (one batch).
\<close>

datatype item = Single entry | Batch "entry list"

text \<open>
  \<open>metrics_results\<close> is the list the caller owns and \<open>process_entry\<close> appends to; the
  model returns the list as it is afterwards. \<open>process_batch\<close> is the loop of the
  \<^verbatim>\<open>elif isinstance(entry, list)\<close> branch.
\<close>

fun process_batch ::
  "(AudioSignal \<Rightarrow> AudioSignal \<Rightarrow> metrics) \<Rightarrow> (AudioSignal \<Rightarrow> real) \<Rightarrow>
   entry list \<Rightarrow> id_dict \<Rightarrow> metrics list \<Rightarrow> int \<Rightarrow> error + metrics list" where
  "process_batch get_metrics duration [] id_dict metrics_results max_duration =
     Inr metrics_results"
| "process_batch get_metrics duration (item # rest) id_dict metrics_results max_duration =
     (case compute_metrics get_metrics duration item id_dict max_duration of
        Inl e \<Rightarrow> Inl e
      | Inr None \<Rightarrow>
          process_batch get_metrics duration rest id_dict metrics_results max_duration
      | Inr (Some m) \<Rightarrow>
          process_batch get_metrics duration rest id_dict (metrics_results @ [m]) max_duration)"

fun process_entry ::
  "(AudioSignal \<Rightarrow> AudioSignal \<Rightarrow> metrics) \<Rightarrow> (AudioSignal \<Rightarrow> real) \<Rightarrow>
   item \<Rightarrow> id_dict \<Rightarrow> metrics list \<Rightarrow> int \<Rightarrow> error + metrics list" where
  "process_entry get_metrics duration (Single entry) id_dict metrics_results max_duration =
     (case compute_metrics get_metrics duration entry id_dict max_duration of
        Inl e \<Rightarrow> Inl e
      | Inr None \<Rightarrow> Inr metrics_results
      | Inr (Some m) \<Rightarrow> Inr (metrics_results @ [m]))"
| "process_entry get_metrics duration (Batch entries) id_dict metrics_results max_duration =
     process_batch get_metrics duration entries id_dict metrics_results max_duration"

subsection \<open>\<open>evaluate_dataset\<close>\<close>

text \<open>The dictionary comprehension that builds the id-to-array mapping of one model split.\<close>

definition build_id_dict :: "entry list \<Rightarrow> id_dict" where
  "build_id_dict split = fold (\<lambda>i d. d(entry_id i \<mapsto> audio_array i)) split Map.empty"

text \<open>The loop \<^verbatim>\<open>for entry in dataset_iterable: process_entry(...)\<close>.\<close>

fun process_all ::
  "(AudioSignal \<Rightarrow> AudioSignal \<Rightarrow> metrics) \<Rightarrow> (AudioSignal \<Rightarrow> real) \<Rightarrow>
   item list \<Rightarrow> id_dict \<Rightarrow> metrics list \<Rightarrow> int \<Rightarrow> error + metrics list" where
  "process_all get_metrics duration [] id_dict metrics_results max_duration =
     Inr metrics_results"
| "process_all get_metrics duration (e # rest) id_dict metrics_results max_duration =
     (case process_entry get_metrics duration e id_dict metrics_results max_duration of
        Inl err \<Rightarrow> Inl err
      | Inr metrics_results' \<Rightarrow>
          process_all get_metrics duration rest id_dict metrics_results' max_duration)"

text \<open>
  The aggregation: \<^verbatim>\<open>aggregated_metrics[k].append(v)\<close> on a \<^verbatim>\<open>defaultdict(list)\<close>, for
  every item of every record, then the mean of each list.
\<close>

definition append_value ::
  "string \<Rightarrow> mval \<Rightarrow> (string \<times> mval list) list \<Rightarrow> (string \<times> mval list) list" where
  "append_value k v aggregated =
     AList.update k (case map_of aggregated k of None \<Rightarrow> [v] | Some vs \<Rightarrow> vs @ [v]) aggregated"

definition aggregate ::
  "metrics list \<Rightarrow> (string \<times> mval list) list" where
  "aggregate metrics_results =
     fold (\<lambda>metrics aggregated. fold (\<lambda>(k, v). append_value k v) metrics aggregated)
       metrics_results []"

definition mean_metrics :: "(string \<times> mval list) list \<Rightarrow> model_result" where
  "mean_metrics aggregated =
     map (\<lambda>(k, v). (k, if v \<noteq> [] then nanmean v else NaN)) aggregated"

text \<open>
  The body of the loop over the models, from the id mapping to \<open>model_result\<close>. The loaded
  dataset \<open>c\<close> is subscripted twice: with the model's name, and with \<^verbatim>\<open>'original'\<close>
  once the id mapping is built. In batch mode the iteration runs over the batches.
\<close>

definition evaluate_model ::
  "(AudioSignal \<Rightarrow> AudioSignal \<Rightarrow> metrics) \<Rightarrow> (AudioSignal \<Rightarrow> real) \<Rightarrow>
   dataset_dict \<Rightarrow> string \<Rightarrow> string \<Rightarrow> int \<Rightarrow> int \<Rightarrow> error + model_result" where
  "evaluate_model get_metrics duration c model mode batch_size max_duration =
     (case map_of c model of
        None \<Rightarrow> Inl (KeyError model)
      | Some split \<Rightarrow>
          (let id_dict = build_id_dict split in
           case map_of c ''original'' of
             None \<Rightarrow> Inl (KeyError ''original'')
           | Some original \<Rightarrow>
               (let dataset_iterable =
                      (if mode = ''streaming'' then map Single original
                       else map Batch (batched_dataset original batch_size))
                in case process_all get_metrics duration dataset_iterable id_dict []
                          max_duration of
                     Inl err \<Rightarrow> Inl err
                   | Inr metrics_results \<Rightarrow>
                       Inr (mean_metrics (aggregate metrics_results)))))"

definition models_of :: "dataset_dict \<Rightarrow> string list" where
  "models_of c = filter (\<lambda>key. key \<noteq> ''original'') (map fst c)"

definition skipped :: "string list option \<Rightarrow> string \<Rightarrow> bool" where
  "skipped specific_models model =
     (case specific_models of None \<Rightarrow> False | Some names \<Rightarrow> model \<notin> set names)"

fun evaluate_models ::
  "(AudioSignal \<Rightarrow> AudioSignal \<Rightarrow> metrics) \<Rightarrow> (AudioSignal \<Rightarrow> real) \<Rightarrow>
   dataset_dict \<Rightarrow> string \<Rightarrow> int \<Rightarrow> string list option \<Rightarrow> int \<Rightarrow>
   string list \<Rightarrow> result_data \<Rightarrow> error + result_data" where
  "evaluate_models get_metrics duration c mode batch_size specific_models max_duration
     [] result_data = Inr result_data"
| "evaluate_models get_metrics duration c mode batch_size specific_models max_duration
     (model # models) result_data =
     (if skipped specific_models model
      then evaluate_models get_metrics duration c mode batch_size specific_models
             max_duration models result_data
      else case evaluate_model get_metrics duration c model mode batch_size max_duration of
             Inl err \<Rightarrow> Inl err
           | Inr model_result \<Rightarrow>
               evaluate_models get_metrics duration c mode batch_size specific_models
                 max_duration models (AList.update model model_result result_data))"

definition output_file_name :: "string \<Rightarrow> string" where
  "output_file_name dataset_name =
     map (\<lambda>ch. if ch = CHR ''/'' then CHR ''_'' else ch) dataset_name
       @ ''_evaluation_results.json''"

text \<open>
  \<open>evaluate_dataset\<close>, with the loaded dataset \<open>c\<close> (what \<^verbatim>\<open>load_dataset\<close> returned) as a
  parameter. A run that completes returns the name of the file written and the mapping
  dumped into it; a run aborted by an exception returns the exception and writes nothing.
  Timing, memory reports and garbage collection do not influence the result and are left out.
\<close>

definition evaluate_dataset ::
  "(AudioSignal \<Rightarrow> AudioSignal \<Rightarrow> metrics) \<Rightarrow> (AudioSignal \<Rightarrow> real) \<Rightarrow>
   string \<Rightarrow> dataset_dict \<Rightarrow> string \<Rightarrow> int \<Rightarrow> string list option \<Rightarrow> int \<Rightarrow>
   error + string \<times> result_data" where
  "evaluate_dataset get_metrics duration dataset_name c mode batch_size specific_models
     max_duration =
     (case evaluate_models get_metrics duration c mode batch_size specific_models max_duration
             (models_of c) [] of
        Inl err \<Rightarrow> Inl err
      | Inr result_data \<Rightarrow> Inr (output_file_name dataset_name, result_data))"

section \<open>Concrete data and auxiliary notions\<close>

subsection \<open>A metrics function and entries for concrete runs\<close>

text \<open>
  The metrics function is a parameter throughout. Where a run is evaluated on concrete data,
  this instance is passed: it reports the number of samples of the original signal it is given.
\<close>

definition count_metrics :: "AudioSignal \<Rightarrow> AudioSignal \<Rightarrow> metrics" where
  "count_metrics original_signal model_signal =
     [(''n_samples'', Num (real (length (audio_data original_signal))))]"

text \<open>Concrete data: entries at 16 kHz, five originals and a model split with the same ids.\<close>

definition utterance :: "string \<Rightarrow> array \<Rightarrow> entry" where
  "utterance i a = \<lparr>entry_id = i, audio_array = a, sampling_rate = 16000\<rparr>"

definition five_originals :: "entry list" where
  "five_originals =
     [utterance ''1'' [1, 2, 3, 4], utterance ''2'' [1, 2], utterance ''3'' [1],
      utterance ''4'' [1, 2, 3], utterance ''5'' [1, 2]]"

definition five_resynthesized :: "entry list" where
  "five_resynthesized =
     [utterance ''1'' [1, 2, 3], utterance ''2'' [1, 2], utterance ''3'' [1, 1],
      utterance ''4'' [1, 2, 3], utterance ''5'' [1, 2, 0, 0, 0, 0]]"

subsection \<open>Reading the aggregation\<close>

text \<open>
  \<open>collected\<close> reads \<^verbatim>\<open>aggregated_metrics[k]\<close> as the \<^verbatim>\<open>defaultdict(list)\<close> gives it: the
  empty list for a key that has none. \<open>values_of\<close> lists, in order, the values that the items
  of metrics records hold for one metric name.
\<close>

definition collected :: "(string \<times> mval list) list \<Rightarrow> string \<Rightarrow> mval list" where
  "collected aggregated k = (case map_of aggregated k of None \<Rightarrow> [] | Some vs \<Rightarrow> vs)"

definition values_of :: "string \<Rightarrow> (string \<times> mval) list \<Rightarrow> mval list" where
  "values_of k items = map snd (filter (\<lambda>(k', v). k' = k) items)"

text \<open>
  The reduction in the spec's words, "a plain arithmetic mean" of the values collected: the
  mean in exact arithmetic, without rounding, of the finite numbers among them, and none when
  there is no such number.
\<close>

fun numbers :: "mval list \<Rightarrow> real list" where
  "numbers [] = []"
| "numbers (Num x # vs) = x # numbers vs"
| "numbers (v # vs) = numbers vs"

definition exact_mean :: "mval list \<Rightarrow> real option" where
  "exact_mean v =
     (if numbers v = [] then None
      else Some (sum_list (numbers v) / real (length (numbers v))))"

subsection \<open>What one entry contributes\<close>

text \<open>
  The records that \<open>process_entry\<close> appends for one entry: the record that \<open>compute_metrics\<close>
  returns, or none when it returns \<^verbatim>\<open>None\<close>.
\<close>

definition contribution ::
  "(AudioSignal \<Rightarrow> AudioSignal \<Rightarrow> metrics) \<Rightarrow> (AudioSignal \<Rightarrow> real) \<Rightarrow>
   id_dict \<Rightarrow> int \<Rightarrow> entry \<Rightarrow> metrics list" where
  "contribution gm duration id_dict max_duration entry =
     (case compute_metrics gm duration entry id_dict max_duration of
        Inr (Some m) \<Rightarrow> [m]
      | _ \<Rightarrow> [])"

section \<open>Evaluating the float arithmetic\<close>

lemma exponent_search_numeral:
  "exponent_search (numeral k) a e =
     (if 2 \<le> a then exponent_search (pred_numeral k) (a / 2) (e + 1)
      else if a < 1 \<and> - 1022 < e then exponent_search (pred_numeral k) (a * 2) (e - 1)
      else e)"
  by (simp add: numeral_eq_Suc)

lemmas f64_defs = round64_def ulp64_def exponent64_def exponent_search_numeral
  round_half_even_def fdiv_count_def replace_nan_def nanmean_def pairwise_sum.simps

section \<open>Padding\<close>

lemma length_pad_fst:
  "length (fst (pad_arrays_to_match a b)) = max (length a) (length b)"
  by (simp add: pad_arrays_to_match_def)

lemma length_pad_snd:
  "length (snd (pad_arrays_to_match a b)) = max (length a) (length b)"
  by (simp add: pad_arrays_to_match_def)

lemma take_pad_fst: "take (length a) (fst (pad_arrays_to_match a b)) = a"
  by (simp add: pad_arrays_to_match_def)

lemma take_pad_snd: "take (length b) (snd (pad_arrays_to_match a b)) = b"
  by (simp add: pad_arrays_to_match_def)

text \<open>
  Claim C8. For every pair of original and resynthesized arrays, both padded arrays have the
  same length, that length is the maximum of the two lengths given, and nothing is cut off:
  each array given is the leading part, of its own length, of its padded version (so the
  longer one comes back as it was).
\<close>

theorem pad_arrays_to_match_max_length:
  "length (fst (pad_arrays_to_match a b)) = length (snd (pad_arrays_to_match a b))
   \<and> length (fst (pad_arrays_to_match a b)) = max (length a) (length b)
   \<and> take (length a) (fst (pad_arrays_to_match a b)) = a
   \<and> take (length b) (snd (pad_arrays_to_match a b)) = b"
  by (simp only: length_pad_fst length_pad_snd take_pad_fst take_pad_snd simp_thms)

theorem pad_arrays_to_match_max_length_witness:
  "pad_arrays_to_match [1, 2, 3, 4] [1, 2, 3] = ([1, 2, 3, 4], [1, 2, 3, 0])
   \<and> length (snd (pad_arrays_to_match [1, 2, 3, 4] [1, 2, 3])) = 4
   \<and> take 3 (snd (pad_arrays_to_match [1, 2, 3, 4] [1, 2, 3])) = [1, 2, 3]"
  using pad_arrays_to_match_max_length [of "[1, 2, 3, 4]" "[1, 2, 3]"]
  by (simp add: pad_arrays_to_match_def)

section \<open>One entry\<close>

lemma compute_metrics_missing:
  "id_dict (entry_id entry) = None \<Longrightarrow>
   compute_metrics gm duration entry id_dict max_duration = Inl (KeyError (entry_id entry))"
  by (simp add: compute_metrics_def)

lemma compute_metrics_present:
  "id_dict (entry_id entry) = Some resynth \<Longrightarrow>
   compute_metrics gm duration entry id_dict max_duration =
     (if duration \<lparr>audio_data = fst (pad_arrays_to_match (audio_array entry) resynth),
                    sample_rate = sampling_rate entry\<rparr> > real_of_int max_duration
      then Inr None
      else Inr (Some (gm
             \<lparr>audio_data = fst (pad_arrays_to_match (audio_array entry) resynth),
              sample_rate = sampling_rate entry\<rparr>
             \<lparr>audio_data = snd (pad_arrays_to_match (audio_array entry) resynth),
              sample_rate = sampling_rate entry\<rparr>)))"
  by (simp add: compute_metrics_def Let_def split: prod.split)

lemma signal_duration_pad_mono:
  "signal_duration \<lparr>audio_data = a, sample_rate = r\<rparr>
   \<le> signal_duration \<lparr>audio_data = fst (pad_arrays_to_match a b), sample_rate = r\<rparr>"
  by (simp add: signal_duration_def length_pad_fst divide_right_mono)

text \<open>
  Claim C3, as the code has it. The duration compared with \<open>max_duration\<close> is the one of the
  original array after padding, whose length is the maximum of the lengths of the original
  and the resynthesized array. For every entry whose id the mapping holds: when that duration
  is at most \<open>max_duration\<close> the entry appends exactly one metrics record to the accumulated
  list, and when it exceeds \<open>max_duration\<close> the list is left as it was and no error is
  raised; the same inside a batch.
\<close>

theorem duration_filter_on_padded_signal:
  assumes "id_dict (entry_id entry) = Some resynth"
  shows "length (fst (pad_arrays_to_match (audio_array entry) resynth))
           = max (length (audio_array entry)) (length resynth)
       \<and> process_entry gm duration (Single entry) id_dict metrics_results max_duration
           = Inr (if duration \<lparr>audio_data = fst (pad_arrays_to_match (audio_array entry) resynth),
                               sample_rate = sampling_rate entry\<rparr> > real_of_int max_duration
                  then metrics_results
                  else metrics_results @
                    [gm \<lparr>audio_data = fst (pad_arrays_to_match (audio_array entry) resynth),
                         sample_rate = sampling_rate entry\<rparr>
                        \<lparr>audio_data = snd (pad_arrays_to_match (audio_array entry) resynth),
                         sample_rate = sampling_rate entry\<rparr>])
       \<and> process_entry gm duration (Batch (entry # rest)) id_dict metrics_results max_duration
           = process_entry gm duration (Batch rest) id_dict
               (if duration \<lparr>audio_data = fst (pad_arrays_to_match (audio_array entry) resynth),
                            sample_rate = sampling_rate entry\<rparr> > real_of_int max_duration
                then metrics_results
                else metrics_results @
                  [gm \<lparr>audio_data = fst (pad_arrays_to_match (audio_array entry) resynth),
                       sample_rate = sampling_rate entry\<rparr>
                      \<lparr>audio_data = snd (pad_arrays_to_match (audio_array entry) resynth),
                       sample_rate = sampling_rate entry\<rparr>])
               max_duration"
  using assms by (simp add: compute_metrics_present [where resynth = resynth] length_pad_fst)

theorem duration_filter_on_padded_signal_witness:
  "process_entry count_metrics signal_duration
     (Single \<lparr>entry_id = ''1'', audio_array = [1, 2, 3, 4], sampling_rate = 2\<rparr>)
     (Map.empty(''1'' \<mapsto> [1, 2, 3])) [] 2
     = Inr [[(''n_samples'', Num 4)]]
   \<and> process_entry count_metrics signal_duration
     (Single \<lparr>entry_id = ''1'', audio_array = [1, 2, 3, 4], sampling_rate = 2\<rparr>)
     (Map.empty(''1'' \<mapsto> [1, 2, 3])) [] 1
     = Inr []"
proof -
  have h: "(Map.empty(''1'' \<mapsto> [1, 2, 3 :: real]))
      (entry_id \<lparr>entry_id = ''1'', audio_array = [1, 2, 3, 4], sampling_rate = 2\<rparr>)
      = Some [1, 2, 3]" by simp
  show ?thesis
    using duration_filter_on_padded_signal
        [where id_dict = "Map.empty(''1'' \<mapsto> [1, 2, 3])" and resynth = "[1, 2, 3]"
           and entry = "\<lparr>entry_id = ''1'', audio_array = [1, 2, 3, 4], sampling_rate = 2\<rparr>"
           and gm = count_metrics and duration = signal_duration
           and metrics_results = "[]" and max_duration = 2 and rest = "[]", OF h]
      duration_filter_on_padded_signal
        [where id_dict = "Map.empty(''1'' \<mapsto> [1, 2, 3])" and resynth = "[1, 2, 3]"
           and entry = "\<lparr>entry_id = ''1'', audio_array = [1, 2, 3, 4], sampling_rate = 2\<rparr>"
           and gm = count_metrics and duration = signal_duration
           and metrics_results = "[]" and max_duration = 1 and rest = "[]", OF h]
    by (simp add: pad_arrays_to_match_def signal_duration_def count_metrics_def)
qed

text \<open>
  Claim C3 as stated fails: an original entry of two samples at rate 1 lasts two seconds,
  which is within \<open>max_duration = 3\<close>, yet it contributes no record when the model's array
  for it has five samples, since the padded original then lasts five seconds.
\<close>

theorem short_original_long_resynth_dropped:
  "signal_duration \<lparr>audio_data = [0, 0], sample_rate = 1\<rparr> \<le> real_of_int 3
   \<and> process_entry count_metrics signal_duration
        (Single \<lparr>entry_id = ''1'', audio_array = [0, 0], sampling_rate = 1\<rparr>)
        (Map.empty(''1'' \<mapsto> [0, 0, 0, 0, 0])) [] 3
       = Inr []"
  by (simp add: signal_duration_def compute_metrics_def pad_arrays_to_match_def)

section \<open>Batches and streaming\<close>

lemma concat_batched_loop: "concat (batched_loop dataset batch_size batch) = batch @ dataset"
  by (induction dataset arbitrary: batch) auto

lemma batched_loop_nonempty:
  "b \<in> set (batched_loop dataset batch_size batch) \<Longrightarrow> b \<noteq> []"
  by (induction dataset arbitrary: batch) (auto split: if_splits)

lemma batched_loop_bounded:
  "b \<in> set (batched_loop dataset batch_size batch) \<Longrightarrow> int (length batch) < batch_size \<Longrightarrow>
   int (length b) \<le> batch_size"
proof (induction dataset arbitrary: batch)
  case Nil
  then show ?case by (auto split: if_splits)
next
  case (Cons item dataset)
  show ?case
  proof (cases "int (length (batch @ [item])) = batch_size")
    case True
    with Cons.prems have "b = batch @ [item] \<or> b \<in> set (batched_loop dataset batch_size [])"
      by auto
    then show ?thesis
    proof
      assume "b = batch @ [item]"
      with True show ?thesis by simp
    next
      assume "b \<in> set (batched_loop dataset batch_size [])"
      moreover have "int (length ([] :: 'a list)) < batch_size" using Cons.prems(2) by simp
      ultimately show ?thesis by (rule Cons.IH)
    qed
  next
    case False
    with Cons.prems have "b \<in> set (batched_loop dataset batch_size (batch @ [item]))"
      by auto
    moreover have "int (length (batch @ [item])) < batch_size"
      using False Cons.prems(2) by simp
    ultimately show ?thesis by (rule Cons.IH)
  qed
qed

lemma batched_loop_never_full:
  "batch_size \<le> int (length batch) \<Longrightarrow>
   batched_loop dataset batch_size batch = (if batch @ dataset = [] then [] else [batch @ dataset])"
  by (induction dataset arbitrary: batch) auto

lemma process_batch_append:
  "process_batch gm duration (xs @ ys) id_dict metrics_results max_duration =
     (case process_batch gm duration xs id_dict metrics_results max_duration of
        Inl err \<Rightarrow> Inl err
      | Inr metrics_results' \<Rightarrow> process_batch gm duration ys id_dict metrics_results' max_duration)"
  by (induction xs arbitrary: metrics_results) (auto split: sum.splits option.splits)

lemma process_all_Single:
  "process_all gm duration (map Single entries) id_dict metrics_results max_duration =
   process_batch gm duration entries id_dict metrics_results max_duration"
  by (induction entries arbitrary: metrics_results) (auto split: sum.splits option.splits)

lemma process_all_Batch:
  "process_all gm duration (map Batch batches) id_dict metrics_results max_duration =
   process_batch gm duration (concat batches) id_dict metrics_results max_duration"
  by (induction batches arbitrary: metrics_results)
    (auto simp: process_batch_append split: sum.splits)

lemma evaluate_model_any_mode:
  "evaluate_model gm duration c model mode batch_size max_duration =
   evaluate_model gm duration c model ''streaming'' batch_size' max_duration"
  by (simp add: evaluate_model_def process_all_Single process_all_Batch batched_dataset_def
      concat_batched_loop split: option.splits)

lemma evaluate_models_any_mode:
  "evaluate_models gm duration c mode batch_size specific_models max_duration models result_data =
   evaluate_models gm duration c ''streaming'' batch_size' specific_models max_duration models
     result_data"
proof (induction models arbitrary: result_data)
  case Nil
  show ?case by simp
next
  case (Cons model models)
  have "evaluate_model gm duration c model mode batch_size max_duration =
      evaluate_model gm duration c model ''streaming'' batch_size' max_duration"
    by (rule evaluate_model_any_mode)
  with Cons.IH show ?case by (simp split: sum.splits)
qed

lemmas run_defs = evaluate_dataset_def models_of_def skipped_def evaluate_model_def
  build_id_dict_def compute_metrics_def pad_arrays_to_match_def signal_duration_def
  count_metrics_def aggregate_def append_value_def mean_metrics_def f64_defs
  output_file_name_def batched_dataset_def utterance_def

text \<open>
  Claim C6, as the code has it. For every split and every batch size the batches are
  non-empty and their concatenation is the split, in order; for every batch size of at least
  one, no batch is longer than the batch size; for a batch size of zero or less the buffer
  never counts as full and a non-empty split comes as one batch. Whatever the mode and the
  batch size, the run returns what the streaming run returns on the same data.
\<close>

theorem batch_mode_partitions_and_agrees:
  "concat (batched_dataset dataset batch_size) = dataset
   \<and> (\<forall>b \<in> set (batched_dataset dataset batch_size).
         b \<noteq> [] \<and> (1 \<le> batch_size \<longrightarrow> int (length b) \<le> batch_size))
   \<and> (batch_size \<le> 0 \<longrightarrow>
         batched_dataset dataset batch_size = (if dataset = [] then [] else [dataset]))
   \<and> evaluate_dataset gm duration dataset_name c mode batch_size specific_models max_duration
       = evaluate_dataset gm duration dataset_name c ''streaming'' batch_size' specific_models
           max_duration"
proof -
  have "concat (batched_dataset dataset batch_size) = dataset"
    by (simp add: batched_dataset_def concat_batched_loop)
  moreover have "\<forall>b \<in> set (batched_dataset dataset batch_size).
         b \<noteq> [] \<and> (1 \<le> batch_size \<longrightarrow> int (length b) \<le> batch_size)"
  proof (intro ballI conjI impI)
    fix b assume "b \<in> set (batched_dataset dataset batch_size)"
    then have b: "b \<in> set (batched_loop dataset batch_size [])"
      by (simp add: batched_dataset_def)
    then show "b \<noteq> []" by (rule batched_loop_nonempty)
    assume "1 \<le> batch_size"
    then have "int (length ([] :: 'a list)) < batch_size" by simp
    with b show "int (length b) \<le> batch_size" by (rule batched_loop_bounded)
  qed
  moreover have "batch_size \<le> 0 \<longrightarrow>
         batched_dataset dataset batch_size = (if dataset = [] then [] else [dataset])"
    by (simp add: batched_dataset_def batched_loop_never_full)
  moreover have "evaluate_dataset gm duration dataset_name c mode batch_size specific_models
         max_duration
       = evaluate_dataset gm duration dataset_name c ''streaming'' batch_size' specific_models
           max_duration"
    by (simp add: evaluate_dataset_def
        evaluate_models_any_mode [where mode = mode and batch_size = batch_size
          and batch_size' = batch_size'])
  ultimately show ?thesis by blast
qed

theorem batch_mode_partitions_and_agrees_witness:
  "map length (batched_dataset five_originals 2) = [2, 2, 1]
   \<and> concat (batched_dataset five_originals 2) = five_originals
   \<and> batched_dataset five_originals 0 = [five_originals]
   \<and> evaluate_dataset count_metrics signal_duration ''d''
         [(''original'', five_originals), (''m'', five_resynthesized)] ''batch'' 2 None 120
       = evaluate_dataset count_metrics signal_duration ''d''
         [(''original'', five_originals), (''m'', five_resynthesized)] ''streaming'' 2 None 120
   \<and> evaluate_dataset count_metrics signal_duration ''d''
         [(''original'', five_originals), (''m'', five_resynthesized)] ''batch'' 2 None 120
       = Inr (''d_evaluation_results.json'', [(''m'', [(''n_samples'', Num (7656119366529843 / 2 ^ 51))])])"
proof -
  have sizes: "map length (batched_dataset five_originals 2) = [2, 2, 1]"
    by (simp add: batched_dataset_def five_originals_def)
  have zero: "batched_dataset five_originals 0 = [five_originals]"
    by (simp add: batched_dataset_def five_originals_def)
  have run: "evaluate_dataset count_metrics signal_duration ''d''
         [(''original'', five_originals), (''m'', five_resynthesized)] ''batch'' 2 None 120
       = Inr (''d_evaluation_results.json'', [(''m'', [(''n_samples'', Num (7656119366529843 / 2 ^ 51))])])"
    by (simp add: run_defs five_originals_def five_resynthesized_def)
  show ?thesis
    using sizes zero run
      batch_mode_partitions_and_agrees [of five_originals 2 count_metrics signal_duration "''d''"
        "[(''original'', five_originals), (''m'', five_resynthesized)]" "''batch''" None 120 2]
    by simp
qed

text \<open>
  Claim C6 as stated fails for a batch size of zero, which the command line accepts: the
  three items come as one batch of three, more than the batch size.
\<close>

theorem batch_size_zero_one_oversized_batch:
  "batched_dataset [''a'', ''b'', ''c''] 0 = [[''a'', ''b'', ''c'']]
   \<and> \<not> int (length [''a'', ''b'', ''c'']) \<le> 0"
  by (simp add: batched_dataset_def)

section \<open>A run\<close>

lemma fold_id_dict_dom:
  "dom (fold (\<lambda>i d. d(entry_id i \<mapsto> audio_array i)) split d0) = dom d0 \<union> entry_id ` set split"
  by (induction split arbitrary: d0) auto

lemma dom_build_id_dict: "dom (build_id_dict split) = entry_id ` set split"
  by (simp add: build_id_dict_def fold_id_dict_dom)

lemma build_id_dict_missing:
  "entry_id entry \<notin> entry_id ` set split \<Longrightarrow> build_id_dict split (entry_id entry) = None"
  using dom_build_id_dict [of split] by blast

lemma process_batch_missing:
  "entry \<in> set entries \<Longrightarrow> id_dict (entry_id entry) = None \<Longrightarrow>
   \<exists>k. process_batch gm duration entries id_dict metrics_results max_duration = Inl (KeyError k)"
proof (induction entries arbitrary: metrics_results)
  case Nil
  then show ?case by simp
next
  case (Cons item rest)
  show ?case
  proof (cases "compute_metrics gm duration item id_dict max_duration")
    case (Inl err)
    then show ?thesis by (cases err) simp
  next
    case (Inr r)
    then have "item \<noteq> entry"
      using Cons.prems(2) by (auto simp: compute_metrics_missing)
    with Cons.prems(1) have "entry \<in> set rest" by simp
    then show ?thesis
      using Cons.IH Cons.prems(2) Inr by (cases r) simp_all
  qed
qed

lemma process_batch_first_missing:
  "id_dict (entry_id entry) = None \<Longrightarrow>
   process_batch gm duration (entry # rest) id_dict metrics_results max_duration
     = Inl (KeyError (entry_id entry))"
  by (simp add: compute_metrics_missing)

lemma evaluate_model_streaming:
  "evaluate_model gm duration c model ''streaming'' batch_size max_duration =
     (case map_of c model of
        None \<Rightarrow> Inl (KeyError model)
      | Some split \<Rightarrow>
          (case map_of c ''original'' of
             None \<Rightarrow> Inl (KeyError ''original'')
           | Some original \<Rightarrow>
               (case process_batch gm duration original (build_id_dict split) [] max_duration of
                  Inl err \<Rightarrow> Inl err
                | Inr metrics_results \<Rightarrow> Inr (mean_metrics (aggregate metrics_results)))))"
  by (simp add: evaluate_model_def process_all_Single split: option.splits)

lemma evaluate_model_eq:
  "evaluate_model gm duration c model mode batch_size max_duration =
     (case map_of c model of
        None \<Rightarrow> Inl (KeyError model)
      | Some split \<Rightarrow>
          (case map_of c ''original'' of
             None \<Rightarrow> Inl (KeyError ''original'')
           | Some original \<Rightarrow>
               (case process_batch gm duration original (build_id_dict split) [] max_duration of
                  Inl err \<Rightarrow> Inl err
                | Inr metrics_results \<Rightarrow> Inr (mean_metrics (aggregate metrics_results)))))"
  using evaluate_model_any_mode [of gm duration c model mode batch_size max_duration batch_size]
  by (simp only: evaluate_model_streaming)

lemma evaluate_model_missing:
  assumes "map_of c model = Some split" and "map_of c ''original'' = Some original"
    and "entry \<in> set original" and "entry_id entry \<notin> entry_id ` set split"
  shows "\<exists>k. evaluate_model gm duration c model mode batch_size max_duration = Inl (KeyError k)"
proof -
  have "build_id_dict split (entry_id entry) = None"
    using assms(4) by (rule build_id_dict_missing)
  with assms(3) obtain k where
    "process_batch gm duration original (build_id_dict split) [] max_duration = Inl (KeyError k)"
    using process_batch_missing by blast
  with assms(1,2) show ?thesis by (simp add: evaluate_model_eq)
qed

lemma evaluate_models_abort:
  "model \<in> set models \<Longrightarrow> \<not> skipped specific_models model \<Longrightarrow>
   evaluate_model gm duration c model mode batch_size max_duration = Inl err \<Longrightarrow>
   \<exists>k. evaluate_models gm duration c mode batch_size specific_models max_duration models
         result_data = Inl (KeyError k)"
proof (induction models arbitrary: result_data)
  case Nil
  then show ?case by simp
next
  case (Cons m models)
  show ?case
  proof (cases "skipped specific_models m")
    case True
    with Cons.prems have "model \<in> set models" by auto
    with Cons.IH Cons.prems True show ?thesis by simp
  next
    case False
    show ?thesis
    proof (cases "evaluate_model gm duration c m mode batch_size max_duration")
      case (Inl e)
      with False show ?thesis by (cases e) simp
    next
      case (Inr r)
      with Cons.prems(3) have "m \<noteq> model" by auto
      with Cons.prems have "model \<in> set models" by auto
      with Cons.IH Cons.prems False Inr show ?thesis by simp
    qed
  qed
qed

lemma compute_metrics_Inr:
  "id_dict (entry_id entry) \<noteq> None \<Longrightarrow>
   \<exists>r. compute_metrics gm duration entry id_dict max_duration = Inr r"
  by (auto simp: compute_metrics_present)

lemma process_batch_present:
  "\<forall>e \<in> set entries. id_dict (entry_id e) \<noteq> None \<Longrightarrow>
   process_batch gm duration entries id_dict metrics_results max_duration
     = Inr (metrics_results @ concat (map (contribution gm duration id_dict max_duration) entries))"
proof (induction entries arbitrary: metrics_results)
  case Nil
  show ?case by simp
next
  case (Cons item rest)
  from Cons.prems have "id_dict (entry_id item) \<noteq> None" by simp
  then obtain r where r: "compute_metrics gm duration item id_dict max_duration = Inr r"
    using compute_metrics_Inr by blast
  from Cons.prems have rest: "\<forall>e \<in> set rest. id_dict (entry_id e) \<noteq> None" by simp
  show ?case
    using r Cons.IH [OF rest] by (cases r) (simp_all add: contribution_def)
qed

lemma process_batch_Inr_present:
  assumes "process_batch gm duration entries id_dict metrics_results max_duration = Inr res"
  shows "\<forall>e \<in> set entries. id_dict (entry_id e) \<noteq> None"
proof
  fix e assume e: "e \<in> set entries"
  show "id_dict (entry_id e) \<noteq> None"
  proof
    assume "id_dict (entry_id e) = None"
    with e have "\<exists>k. process_batch gm duration entries id_dict metrics_results max_duration
        = Inl (KeyError k)" by (rule process_batch_missing)
    with assms show False by simp
  qed
qed

lemma process_batch_stops_at_first_missing:
  assumes "\<forall>e \<in> set before. id_dict (entry_id e) \<noteq> None"
    and "id_dict (entry_id entry) = None"
  shows "process_batch gm duration (before @ entry # after) id_dict metrics_results max_duration
         = Inl (KeyError (entry_id entry))"
  using assms(2)
  by (simp add: process_batch_append process_batch_present [OF assms(1)]
      compute_metrics_missing)

text \<open>
  Claim C2. For every original entry whose id is absent from the id-to-array mapping of a
  model that is evaluated, \<open>compute_metrics\<close> raises the key-lookup error for that id; nothing
  catches it: the evaluation of the model fails with a key-lookup error (the one for this
  entry's id when every entry before it has its id in the mapping, the entries after it not
  being processed), and so does the whole run, in either mode. The entry is not skipped and
  no result is written.
\<close>

theorem missing_id_aborts_run:
  assumes "model \<in> set (models_of c)" and "\<not> skipped specific_models model"
    and "map_of c model = Some split" and "map_of c ''original'' = Some original"
    and "entry \<in> set original" and "entry_id entry \<notin> entry_id ` set split"
  shows "compute_metrics gm duration entry (build_id_dict split) max_duration
           = Inl (KeyError (entry_id entry))
       \<and> (\<exists>k. evaluate_model gm duration c model mode batch_size max_duration
                = Inl (KeyError k))
       \<and> (\<forall>before after.
             original = before @ entry # after
             \<and> (\<forall>e \<in> set before. entry_id e \<in> entry_id ` set split)
             \<longrightarrow> evaluate_model gm duration c model mode batch_size max_duration
                   = Inl (KeyError (entry_id entry)))
       \<and> (\<exists>k. evaluate_dataset gm duration dataset_name c mode batch_size specific_models
                  max_duration
                = Inl (KeyError k))"
proof -
  have absent: "build_id_dict split (entry_id entry) = None"
    using assms(6) by (rule build_id_dict_missing)
  then have one: "compute_metrics gm duration entry (build_id_dict split) max_duration
           = Inl (KeyError (entry_id entry))"
    by (rule compute_metrics_missing)
  obtain k where model: "evaluate_model gm duration c model mode batch_size max_duration
      = Inl (KeyError k)"
    using evaluate_model_missing [OF assms(3-6)] by blast
  have first: "\<forall>before after.
      original = before @ entry # after
      \<and> (\<forall>e \<in> set before. entry_id e \<in> entry_id ` set split)
      \<longrightarrow> evaluate_model gm duration c model mode batch_size max_duration
            = Inl (KeyError (entry_id entry))"
  proof (intro allI impI)
    fix before after
    assume h: "original = before @ entry # after
      \<and> (\<forall>e \<in> set before. entry_id e \<in> entry_id ` set split)"
    then have "\<forall>e \<in> set before. build_id_dict split (entry_id e) \<noteq> None"
      using dom_build_id_dict [of split] by blast
    then have "process_batch gm duration (before @ entry # after) (build_id_dict split) []
        max_duration = Inl (KeyError (entry_id entry))"
      using absent by (rule process_batch_stops_at_first_missing)
    with h assms(3,4)
    show "evaluate_model gm duration c model mode batch_size max_duration
        = Inl (KeyError (entry_id entry))"
      by (simp add: evaluate_model_eq)
  qed
  obtain k' where "evaluate_models gm duration c mode batch_size specific_models max_duration
      (models_of c) [] = Inl (KeyError k')"
    using evaluate_models_abort [OF assms(1,2) model] by blast
  then have "evaluate_dataset gm duration dataset_name c mode batch_size specific_models
      max_duration = Inl (KeyError k')"
    by (simp add: evaluate_dataset_def)
  with one model first show ?thesis by blast
qed

theorem missing_id_aborts_run_witness:
  "evaluate_dataset count_metrics signal_duration ''d''
     [(''original'', [utterance ''1'' [1, 2, 3, 4], utterance ''2'' [1, 2], utterance ''3'' [1]]),
      (''m'', [utterance ''1'' [1, 2, 3]])] ''streaming'' 100 None 120
     = Inl (KeyError ''2'')
   \<and> evaluate_model count_metrics signal_duration
     [(''original'', [utterance ''1'' [1, 2, 3, 4], utterance ''2'' [1, 2], utterance ''3'' [1]]),
      (''m'', [utterance ''1'' [1, 2, 3]])] ''m'' ''batch'' 100 120
     = Inl (KeyError ''2'')
   \<and> (\<exists>k. evaluate_dataset count_metrics signal_duration ''d''
     [(''original'', [utterance ''1'' [1, 2, 3, 4], utterance ''2'' [1, 2], utterance ''3'' [1]]),
      (''m'', [utterance ''1'' [1, 2, 3]])] ''batch'' 100 None 120
     = Inl (KeyError k))"
proof -
  have run: "evaluate_dataset count_metrics signal_duration ''d''
     [(''original'', [utterance ''1'' [1, 2, 3, 4], utterance ''2'' [1, 2], utterance ''3'' [1]]),
      (''m'', [utterance ''1'' [1, 2, 3]])] ''streaming'' 100 None 120
     = Inl (KeyError ''2'')"
    by (simp add: run_defs)
  have m: "''m'' \<in> set (models_of
     [(''original'', [utterance ''1'' [1, 2, 3, 4], utterance ''2'' [1, 2], utterance ''3'' [1]]),
      (''m'', [utterance ''1'' [1, 2, 3]])])"
    by (simp add: models_of_def)
  have sel: "\<not> skipped None ''m''" by (simp add: skipped_def)
  have s: "map_of
     [(''original'', [utterance ''1'' [1, 2, 3, 4], utterance ''2'' [1, 2], utterance ''3'' [1]]),
      (''m'', [utterance ''1'' [1, 2, 3]])] ''m'' = Some [utterance ''1'' [1, 2, 3]]"
    by simp
  have o: "map_of
     [(''original'', [utterance ''1'' [1, 2, 3, 4], utterance ''2'' [1, 2], utterance ''3'' [1]]),
      (''m'', [utterance ''1'' [1, 2, 3]])] ''original''
     = Some [utterance ''1'' [1, 2, 3, 4], utterance ''2'' [1, 2], utterance ''3'' [1]]"
    by simp
  have e: "utterance ''2'' [1, 2]
     \<in> set [utterance ''1'' [1, 2, 3, 4], utterance ''2'' [1, 2], utterance ''3'' [1]]"
    by simp
  have missing: "entry_id (utterance ''2'' [1, 2]) \<notin> entry_id ` set [utterance ''1'' [1, 2, 3]]"
    by (simp add: utterance_def)
  note inst = missing_id_aborts_run [OF m sel s o e missing, where gm = count_metrics
      and duration = signal_duration and mode = "''batch''" and batch_size = 100
      and max_duration = 120 and dataset_name = "''d''"]
  have split: "[utterance ''1'' [1, 2, 3, 4], utterance ''2'' [1, 2], utterance ''3'' [1]]
       = [utterance ''1'' [1, 2, 3, 4]] @ utterance ''2'' [1, 2] # [utterance ''3'' [1]]
     \<and> (\<forall>e \<in> set [utterance ''1'' [1, 2, 3, 4]].
           entry_id e \<in> entry_id ` set [utterance ''1'' [1, 2, 3]])"
    by (simp add: utterance_def)
  have model: "evaluate_model count_metrics signal_duration
     [(''original'', [utterance ''1'' [1, 2, 3, 4], utterance ''2'' [1, 2], utterance ''3'' [1]]),
      (''m'', [utterance ''1'' [1, 2, 3]])] ''m'' ''batch'' 100 120
     = Inl (KeyError ''2'')"
    using inst [THEN conjunct2, THEN conjunct2, THEN conjunct1, rule_format, OF split]
    by (simp add: utterance_def)
  have batch: "\<exists>k. evaluate_dataset count_metrics signal_duration ''d''
     [(''original'', [utterance ''1'' [1, 2, 3, 4], utterance ''2'' [1, 2], utterance ''3'' [1]]),
      (''m'', [utterance ''1'' [1, 2, 3]])] ''batch'' 100 None 120
     = Inl (KeyError k)"
    using inst [THEN conjunct2, THEN conjunct2, THEN conjunct2] .
  from run model batch show ?thesis by (simp only: simp_thms)
qed

section \<open>The lookup comes before the duration check\<close>

text \<open>
  Claim C9. The id lookup comes before the duration check. For every entry whose original
  audio lasts longer than \<open>max_duration\<close> and whose id is missing from the model's mapping,
  \<open>compute_metrics\<close> raises the key-lookup error, and so does \<open>process_entry\<close> in streaming
  mode and for a batch that starts with the entry; had the id been mapped to any array, the
  same entry would have been skipped for its duration. When the entry is in the original
  split and the mapping is the one of a model that is evaluated, the run aborts with a
  key-lookup error.
\<close>

theorem lookup_precedes_duration_check:
  assumes "id_dict (entry_id entry) = None"
    and "signal_duration \<lparr>audio_data = audio_array entry, sample_rate = sampling_rate entry\<rparr>
           > real_of_int max_duration"
  shows "compute_metrics gm signal_duration entry id_dict max_duration
           = Inl (KeyError (entry_id entry))
       \<and> process_entry gm signal_duration (Single entry) id_dict metrics_results max_duration
           = Inl (KeyError (entry_id entry))
       \<and> process_entry gm signal_duration (Batch (entry # rest)) id_dict metrics_results
            max_duration
           = Inl (KeyError (entry_id entry))
       \<and> compute_metrics gm signal_duration entry (id_dict(entry_id entry \<mapsto> resynth))
            max_duration
           = Inr None
       \<and> (model \<in> set (models_of c) \<and> \<not> skipped specific_models model
            \<and> map_of c model = Some split \<and> id_dict = build_id_dict split
            \<and> map_of c ''original'' = Some original \<and> entry \<in> set original
          \<longrightarrow> (\<exists>k. evaluate_dataset gm signal_duration dataset_name c mode batch_size
                     specific_models max_duration = Inl (KeyError k)))"
proof -
  have missing: "compute_metrics gm signal_duration entry id_dict max_duration
      = Inl (KeyError (entry_id entry))"
    using assms(1) by (rule compute_metrics_missing)
  have "real_of_int max_duration
      < signal_duration \<lparr>audio_data = fst (pad_arrays_to_match (audio_array entry) resynth),
                         sample_rate = sampling_rate entry\<rparr>"
    using assms(2) signal_duration_pad_mono [of "audio_array entry" "sampling_rate entry" resynth]
    by linarith
  then have dropped: "compute_metrics gm signal_duration entry
      (id_dict(entry_id entry \<mapsto> resynth)) max_duration = Inr None"
    by (simp add: compute_metrics_present [where resynth = resynth])
  have run: "model \<in> set (models_of c) \<and> \<not> skipped specific_models model
        \<and> map_of c model = Some split \<and> id_dict = build_id_dict split
        \<and> map_of c ''original'' = Some original \<and> entry \<in> set original
      \<longrightarrow> (\<exists>k. evaluate_dataset gm signal_duration dataset_name c mode batch_size
                 specific_models max_duration = Inl (KeyError k))"
  proof
    assume h: "model \<in> set (models_of c) \<and> \<not> skipped specific_models model
        \<and> map_of c model = Some split \<and> id_dict = build_id_dict split
        \<and> map_of c ''original'' = Some original \<and> entry \<in> set original"
    then have "entry_id entry \<notin> dom (build_id_dict split)"
      using assms(1) by auto
    then have absent: "entry_id entry \<notin> entry_id ` set split"
      using dom_build_id_dict [of split] by simp
    from h have s: "map_of c model = Some split" and o: "map_of c ''original'' = Some original"
      and e: "entry \<in> set original" and m: "model \<in> set (models_of c)"
      and sel: "\<not> skipped specific_models model"
      by simp_all
    obtain k where "evaluate_model gm signal_duration c model mode batch_size max_duration
        = Inl (KeyError k)"
      using evaluate_model_missing [OF s o e absent] by blast
    from evaluate_models_abort [OF m sel this]
    obtain k' where "evaluate_models gm signal_duration c mode batch_size specific_models
        max_duration (models_of c) [] = Inl (KeyError k')" by blast
    then have "evaluate_dataset gm signal_duration dataset_name c mode batch_size
        specific_models max_duration = Inl (KeyError k')"
      by (simp add: evaluate_dataset_def)
    then show "\<exists>k. evaluate_dataset gm signal_duration dataset_name c mode batch_size
        specific_models max_duration = Inl (KeyError k)" ..
  qed
  from missing dropped run show ?thesis by simp
qed

theorem lookup_precedes_duration_check_witness:
  "signal_duration \<lparr>audio_data = [0, 0, 0, 0], sample_rate = 1\<rparr> > real_of_int 3
   \<and> compute_metrics count_metrics signal_duration
        \<lparr>entry_id = ''1'', audio_array = [0, 0, 0, 0], sampling_rate = 1\<rparr> (build_id_dict []) 3
       = Inl (KeyError ''1'')
   \<and> compute_metrics count_metrics signal_duration
        \<lparr>entry_id = ''1'', audio_array = [0, 0, 0, 0], sampling_rate = 1\<rparr>
        ((build_id_dict [])(''1'' \<mapsto> [0, 0])) 3
       = Inr None
   \<and> (\<exists>k. evaluate_dataset count_metrics signal_duration ''d''
        [(''original'', [\<lparr>entry_id = ''1'', audio_array = [0, 0, 0, 0], sampling_rate = 1\<rparr>]),
         (''m'', [])] ''streaming'' 100 None 3
       = Inl (KeyError k))"
proof -
  have h1: "build_id_dict []
      (entry_id \<lparr>entry_id = ''1'', audio_array = [0, 0, 0, 0], sampling_rate = 1\<rparr>) = None"
    by (simp add: build_id_dict_def)
  have h2: "signal_duration
      \<lparr>audio_data = audio_array \<lparr>entry_id = ''1'', audio_array = [0, 0, 0, 0], sampling_rate = 1\<rparr>,
       sample_rate = sampling_rate \<lparr>entry_id = ''1'', audio_array = [0, 0, 0, 0], sampling_rate = 1\<rparr>\<rparr>
      > real_of_int 3"
    by (simp add: signal_duration_def)
  note inst = lookup_precedes_duration_check
    [where id_dict = "build_id_dict []"
       and entry = "\<lparr>entry_id = ''1'', audio_array = [0, 0, 0, 0], sampling_rate = 1\<rparr>"
       and max_duration = 3 and gm = count_metrics and metrics_results = "[]" and rest = "[]"
       and resynth = "[0, 0]" and model = "''m''" and specific_models = None and split = "[]"
       and c = "[(''original'',
                  [\<lparr>entry_id = ''1'', audio_array = [0, 0, 0, 0], sampling_rate = 1\<rparr>]),
                 (''m'', [])]"
       and original = "[\<lparr>entry_id = ''1'', audio_array = [0, 0, 0, 0], sampling_rate = 1\<rparr>]"
       and dataset_name = "''d''" and mode = "''streaming''" and batch_size = 100,
     OF h1 h2]
  have setting: "''m'' \<in> set (models_of
        [(''original'', [\<lparr>entry_id = ''1'', audio_array = [0, 0, 0, 0], sampling_rate = 1\<rparr>]),
         (''m'', [])])
      \<and> \<not> skipped None ''m''
      \<and> map_of [(''original'',
                  [\<lparr>entry_id = ''1'', audio_array = [0, 0, 0, 0], sampling_rate = 1\<rparr>]),
                 (''m'', [])] ''m'' = Some []
      \<and> build_id_dict [] = build_id_dict []
      \<and> map_of [(''original'',
                  [\<lparr>entry_id = ''1'', audio_array = [0, 0, 0, 0], sampling_rate = 1\<rparr>]),
                 (''m'', [])] ''original''
          = Some [\<lparr>entry_id = ''1'', audio_array = [0, 0, 0, 0], sampling_rate = 1\<rparr>]
      \<and> \<lparr>entry_id = ''1'', audio_array = [0, 0, 0, 0], sampling_rate = 1\<rparr>
          \<in> set [\<lparr>entry_id = ''1'', audio_array = [0, 0, 0, 0], sampling_rate = 1\<rparr>]"
    by (simp add: models_of_def skipped_def)
  have run: "\<exists>k. evaluate_dataset count_metrics signal_duration ''d''
        [(''original'', [\<lparr>entry_id = ''1'', audio_array = [0, 0, 0, 0], sampling_rate = 1\<rparr>]),
         (''m'', [])] ''streaming'' 100 None 3
       = Inl (KeyError k)"
    using inst [THEN conjunct2, THEN conjunct2, THEN conjunct2, THEN conjunct2, rule_format,
        OF setting] .
  have d: "signal_duration \<lparr>audio_data = [0, 0, 0, 0], sample_rate = 1\<rparr> > real_of_int 3"
    using h2 by simp
  have k: "compute_metrics count_metrics signal_duration
        \<lparr>entry_id = ''1'', audio_array = [0, 0, 0, 0], sampling_rate = 1\<rparr> (build_id_dict []) 3
       = Inl (KeyError ''1'')"
    using inst [THEN conjunct1] by simp
  have n: "compute_metrics count_metrics signal_duration
        \<lparr>entry_id = ''1'', audio_array = [0, 0, 0, 0], sampling_rate = 1\<rparr>
        ((build_id_dict [])(''1'' \<mapsto> [0, 0])) 3
       = Inr None"
    using inst [THEN conjunct2, THEN conjunct2, THEN conjunct2, THEN conjunct1] by simp
  from d k n run show ?thesis by (simp only: simp_thms)
qed

section \<open>The keys of the result\<close>

lemma original_not_model: "''original'' \<notin> set (models_of c)"
  by (simp add: models_of_def)

lemma evaluate_models_keys:
  "evaluate_models gm duration c mode batch_size specific_models max_duration models result_data
     = Inr result_data' \<Longrightarrow>
   fst ` set result_data' =
     fst ` set result_data \<union> {model \<in> set models. \<not> skipped specific_models model}"
proof (induction models arbitrary: result_data)
  case Nil
  then show ?case by simp
next
  case (Cons m models)
  show ?case
  proof (cases "skipped specific_models m")
    case True
    with Cons.prems have "evaluate_models gm duration c mode batch_size specific_models
        max_duration models result_data = Inr result_data'" by simp
    from Cons.IH [OF this] True show ?thesis by auto
  next
    case False
    with Cons.prems obtain r where
      r: "evaluate_model gm duration c m mode batch_size max_duration = Inr r"
      and rest: "evaluate_models gm duration c mode batch_size specific_models max_duration
        models (AList.update m r result_data) = Inr result_data'"
      by (auto split: sum.splits)
    from Cons.IH [OF rest] False show ?thesis by (auto simp: dom_update)
  qed
qed

lemma evaluate_models_lookup:
  "evaluate_models gm duration c mode batch_size specific_models max_duration models result_data
     = Inr result_data' \<Longrightarrow>
   map_of result_data' model =
     (if model \<in> set models \<and> \<not> skipped specific_models model
      then (case evaluate_model gm duration c model mode batch_size max_duration of
              Inl err \<Rightarrow> None | Inr r \<Rightarrow> Some r)
      else map_of result_data model)"
proof (induction models arbitrary: result_data)
  case Nil
  then show ?case by simp
next
  case (Cons m models)
  show ?case
  proof (cases "skipped specific_models m")
    case True
    with Cons.prems have "evaluate_models gm duration c mode batch_size specific_models
        max_duration models result_data = Inr result_data'" by simp
    from Cons.IH [OF this] True show ?thesis by auto
  next
    case False
    with Cons.prems obtain r where
      r: "evaluate_model gm duration c m mode batch_size max_duration = Inr r"
      and rest: "evaluate_models gm duration c mode batch_size specific_models max_duration
        models (AList.update m r result_data) = Inr result_data'"
      by (auto split: sum.splits)
    from Cons.IH [OF rest] False r show ?thesis by (auto simp: update_conv')
  qed
qed

lemma evaluate_dataset_keys:
  "evaluate_dataset gm duration dataset_name c mode batch_size specific_models max_duration
     = Inr (file_name, result_data) \<Longrightarrow>
   fst ` set result_data = {model \<in> set (models_of c). \<not> skipped specific_models model}"
  by (auto simp: evaluate_dataset_def split: sum.splits dest!: evaluate_models_keys)

text \<open>
  Claim C10. Whatever the dataset and the \<^verbatim>\<open>--models\<close> filter, a run that completes never
  has the key \<^verbatim>\<open>original\<close> in the mapping it writes: the list of models leaves that split
  out before anything is evaluated.
\<close>

theorem original_never_a_result_key:
  "evaluate_dataset gm duration dataset_name c mode batch_size specific_models max_duration
     = Inr (file_name, result_data) \<Longrightarrow>
   ''original'' \<notin> fst ` set result_data \<and> map_of result_data ''original'' = None"
proof -
  assume run: "evaluate_dataset gm duration dataset_name c mode batch_size specific_models
     max_duration = Inr (file_name, result_data)"
  have "''original'' \<notin> fst ` set result_data"
    using evaluate_dataset_keys [OF run] original_not_model [of c] by blast
  then show ?thesis by (simp add: map_of_eq_None_iff)
qed

theorem original_never_a_result_key_witness:
  "evaluate_dataset count_metrics signal_duration ''d''
     [(''original'', five_originals), (''m'', five_resynthesized)] ''streaming'' 100
     (Some [''original'', ''m'']) 120
     = Inr (''d_evaluation_results.json'', [(''m'', [(''n_samples'', Num (7656119366529843 / 2 ^ 51))])])
   \<and> ''original'' \<notin> fst ` set [(''m'', [(''n_samples'', Num (7656119366529843 / 2 ^ 51))])]"
proof -
  have run: "evaluate_dataset count_metrics signal_duration ''d''
     [(''original'', five_originals), (''m'', five_resynthesized)] ''streaming'' 100
     (Some [''original'', ''m'']) 120
     = Inr (''d_evaluation_results.json'', [(''m'', [(''n_samples'', Num (7656119366529843 / 2 ^ 51))])])"
    by (simp add: run_defs five_originals_def five_resynthesized_def)
  from run original_never_a_result_key [OF run] show ?thesis by simp
qed

section \<open>The model filter\<close>

lemma evaluate_models_filter_cong:
  "\<forall>model \<in> set models. skipped specific_models model = skipped specific_models' model \<Longrightarrow>
   evaluate_models gm duration c mode batch_size specific_models max_duration models result_data
   = evaluate_models gm duration c mode batch_size specific_models' max_duration models
       result_data"
  by (induction models arbitrary: result_data) (auto split: sum.splits)

lemma evaluate_models_all_skipped:
  "\<forall>model \<in> set models. skipped specific_models model \<Longrightarrow>
   evaluate_models gm duration c mode batch_size specific_models max_duration models result_data
   = Inr result_data"
  by (induction models arbitrary: result_data) auto

text \<open>
  Claim C4, as the code has it. A name passed via \<^verbatim>\<open>--models\<close> that is not a model split of
  the dataset raises nothing. It is only ever compared with the names of the splits: the run
  returns what it returns with the name removed from the list, the name is never a key of the
  result, and when none of the names listed is a model split the run completes and writes the
  empty mapping.
\<close>

theorem unknown_model_name_ignored:
  assumes "name \<notin> set (models_of c)"
  shows "evaluate_dataset gm duration dataset_name c mode batch_size (Some names) max_duration
         = evaluate_dataset gm duration dataset_name c mode batch_size
             (Some (removeAll name names)) max_duration
       \<and> (\<forall>file_name result_data.
             evaluate_dataset gm duration dataset_name c mode batch_size (Some names)
               max_duration = Inr (file_name, result_data)
             \<longrightarrow> name \<notin> fst ` set result_data)
       \<and> (set names \<inter> set (models_of c) = {} \<longrightarrow>
             evaluate_dataset gm duration dataset_name c mode batch_size (Some names)
               max_duration = Inr (output_file_name dataset_name, []))"
proof -
  have "\<forall>model \<in> set (models_of c).
      skipped (Some names) model = skipped (Some (removeAll name names)) model"
    using assms by (auto simp: skipped_def)
  then have same: "evaluate_dataset gm duration dataset_name c mode batch_size (Some names)
        max_duration
      = evaluate_dataset gm duration dataset_name c mode batch_size
          (Some (removeAll name names)) max_duration"
    by (simp add: evaluate_dataset_def
        evaluate_models_filter_cong [where specific_models = "Some names"
          and specific_models' = "Some (removeAll name names)"])
  have no_key: "\<forall>file_name result_data.
      evaluate_dataset gm duration dataset_name c mode batch_size (Some names)
        max_duration = Inr (file_name, result_data)
      \<longrightarrow> name \<notin> fst ` set result_data"
  proof (intro allI impI)
    fix file_name result_data
    assume "evaluate_dataset gm duration dataset_name c mode batch_size (Some names)
        max_duration = Inr (file_name, result_data)"
    from evaluate_dataset_keys [OF this] assms show "name \<notin> fst ` set result_data" by blast
  qed
  have none: "set names \<inter> set (models_of c) = {} \<longrightarrow>
      evaluate_dataset gm duration dataset_name c mode batch_size (Some names)
        max_duration = Inr (output_file_name dataset_name, [])"
  proof
    assume "set names \<inter> set (models_of c) = {}"
    then have "\<forall>model \<in> set (models_of c). skipped (Some names) model"
      by (auto simp: skipped_def)
    then show "evaluate_dataset gm duration dataset_name c mode batch_size (Some names)
        max_duration = Inr (output_file_name dataset_name, [])"
      by (simp add: evaluate_dataset_def evaluate_models_all_skipped)
  qed
  from same no_key none show ?thesis by blast
qed

theorem unknown_model_name_ignored_witness:
  "''other_model'' \<notin> set (models_of [(''original'', five_originals), (''m'', five_resynthesized)])
   \<and> evaluate_dataset count_metrics signal_duration ''d''
       [(''original'', five_originals), (''m'', five_resynthesized)] ''streaming'' 100
       (Some [''other_model'', ''m'']) 120
     = evaluate_dataset count_metrics signal_duration ''d''
       [(''original'', five_originals), (''m'', five_resynthesized)] ''streaming'' 100
       (Some [''m'']) 120
   \<and> evaluate_dataset count_metrics signal_duration ''d''
       [(''original'', five_originals), (''m'', five_resynthesized)] ''streaming'' 100
       (Some [''other_model'', ''m'']) 120
     = Inr (''d_evaluation_results.json'', [(''m'', [(''n_samples'', Num (7656119366529843 / 2 ^ 51))])])
   \<and> evaluate_dataset count_metrics signal_duration ''d''
       [(''original'', five_originals), (''m'', five_resynthesized)] ''streaming'' 100
       (Some [''other_model'']) 120
     = Inr (''d_evaluation_results.json'', [])"
proof -
  have h: "''other_model''
      \<notin> set (models_of [(''original'', five_originals), (''m'', five_resynthesized)])"
    by (simp add: models_of_def)
  have run: "evaluate_dataset count_metrics signal_duration ''d''
       [(''original'', five_originals), (''m'', five_resynthesized)] ''streaming'' 100
       (Some [''other_model'', ''m'']) 120
     = Inr (''d_evaluation_results.json'', [(''m'', [(''n_samples'', Num (7656119366529843 / 2 ^ 51))])])"
    by (simp add: run_defs five_originals_def five_resynthesized_def)
  have name: "output_file_name ''d'' = ''d_evaluation_results.json''"
    by (simp add: output_file_name_def)
  note both = unknown_model_name_ignored [OF h, of count_metrics signal_duration "''d''"
      "''streaming''" 100 "[''other_model'', ''m'']" 120]
  note alone = unknown_model_name_ignored [OF h, of count_metrics signal_duration "''d''"
      "''streaming''" 100 "[''other_model'']" 120]
  have removed: "evaluate_dataset count_metrics signal_duration ''d''
       [(''original'', five_originals), (''m'', five_resynthesized)] ''streaming'' 100
       (Some [''other_model'', ''m'']) 120
     = evaluate_dataset count_metrics signal_duration ''d''
       [(''original'', five_originals), (''m'', five_resynthesized)] ''streaming'' 100
       (Some [''m'']) 120"
    using both by simp
  have empty: "evaluate_dataset count_metrics signal_duration ''d''
       [(''original'', five_originals), (''m'', five_resynthesized)] ''streaming'' 100
       (Some [''other_model'']) 120
     = Inr (''d_evaluation_results.json'', [])"
  proof -
    have disjoint: "set [''other_model'']
        \<inter> set (models_of [(''original'', five_originals), (''m'', five_resynthesized)]) = {}"
      by (simp add: models_of_def)
    from alone [THEN conjunct2, THEN conjunct2, rule_format, OF disjoint] name
    show ?thesis by simp
  qed
  from h removed run empty show ?thesis by (simp only: simp_thms)
qed

text \<open>
  Claim C4 as stated fails: with the splits \<^verbatim>\<open>original\<close> and \<^verbatim>\<open>m\<close> and
  \<^verbatim>\<open>--models other_model\<close>, no exception surfaces; the run completes and writes the empty
  mapping.
\<close>

theorem unknown_model_name_run_completes:
  "''other_model'' \<notin> fst ` set [(''original'', [utterance ''1'' [1, 2, 3, 4]]),
                                   (''m'', [utterance ''1'' [1, 2, 3]])]
   \<and> evaluate_dataset count_metrics signal_duration ''d''
       [(''original'', [utterance ''1'' [1, 2, 3, 4]]), (''m'', [utterance ''1'' [1, 2, 3]])]
       ''streaming'' 100 (Some [''other_model'']) 120
     = Inr (''d_evaluation_results.json'', [])"
  by (simp add: run_defs)

lemma evaluate_models_model_cong:
  "\<forall>model \<in> set models. \<not> skipped specific_models model \<longrightarrow>
     evaluate_model gm duration c' model mode batch_size max_duration
     = evaluate_model gm duration c model mode batch_size max_duration \<Longrightarrow>
   evaluate_models gm duration c' mode batch_size specific_models max_duration models result_data
   = evaluate_models gm duration c mode batch_size specific_models max_duration models
       result_data"
  by (induction models arbitrary: result_data) (auto split: sum.splits)

lemma map_of_replace_splits:
  "map_of (map (\<lambda>(key, split). (key, if keep key then split else other key split)) c) k
   = (if keep k then map_of c k else map_option (other k) (map_of c k))"
  by (induction c) auto

lemma models_of_replace_splits:
  "models_of (map (\<lambda>(key, split). (key, f key split)) c) = models_of c"
  by (simp add: models_of_def case_prod_unfold comp_def)

lemma evaluate_model_same_splits:
  "map_of c' model = map_of c model \<Longrightarrow> map_of c' ''original'' = map_of c ''original'' \<Longrightarrow>
   evaluate_model gm duration c' model mode batch_size max_duration
   = evaluate_model gm duration c model mode batch_size max_duration"
  by (simp add: evaluate_model_def split: option.splits)

text \<open>
  Claim C5. For every dataset and every list of names given with \<^verbatim>\<open>--models\<close>, the keys of
  the mapping written are exactly the named models that are splits of the dataset, so only
  named models appear. Every other model is skipped before its split is touched: its
  id-to-array mapping is never built, since the run returns the same whatever the splits of
  the models not named hold.
\<close>

theorem only_named_models_evaluated:
  "(\<forall>file_name result_data.
      evaluate_dataset gm duration dataset_name c mode batch_size (Some names) max_duration
        = Inr (file_name, result_data)
      \<longrightarrow> fst ` set result_data = set names \<inter> set (models_of c))
   \<and> evaluate_dataset gm duration dataset_name
         (map (\<lambda>(key, split).
                (key, if key \<in> set names \<or> key = ''original'' then split else other key split))
            c)
         mode batch_size (Some names) max_duration
     = evaluate_dataset gm duration dataset_name c mode batch_size (Some names) max_duration"
proof -
  let ?c' = "map (\<lambda>(key, split).
                (key, if key \<in> set names \<or> key = ''original'' then split else other key split))
            c"
  have keys: "\<forall>file_name result_data.
      evaluate_dataset gm duration dataset_name c mode batch_size (Some names) max_duration
        = Inr (file_name, result_data)
      \<longrightarrow> fst ` set result_data = set names \<inter> set (models_of c)"
  proof (intro allI impI)
    fix file_name result_data
    assume "evaluate_dataset gm duration dataset_name c mode batch_size (Some names)
        max_duration = Inr (file_name, result_data)"
    from evaluate_dataset_keys [OF this]
    show "fst ` set result_data = set names \<inter> set (models_of c)"
      by (auto simp: skipped_def)
  qed
  have models: "models_of ?c' = models_of c"
    by (rule models_of_replace_splits)
  have original: "map_of ?c' ''original'' = map_of c ''original''"
    by (simp add: map_of_replace_splits
        [where keep = "\<lambda>key. key \<in> set names \<or> key = ''original''"])
  have "\<forall>model \<in> set (models_of c). \<not> skipped (Some names) model \<longrightarrow>
     evaluate_model gm duration ?c' model mode batch_size max_duration
     = evaluate_model gm duration c model mode batch_size max_duration"
  proof (intro ballI impI)
    fix model
    assume "\<not> skipped (Some names) model"
    then have "model \<in> set names" by (simp add: skipped_def)
    then have "map_of ?c' model = map_of c model"
      by (simp add: map_of_replace_splits
          [where keep = "\<lambda>key. key \<in> set names \<or> key = ''original''"])
    then show "evaluate_model gm duration ?c' model mode batch_size max_duration
        = evaluate_model gm duration c model mode batch_size max_duration"
      using original by (rule evaluate_model_same_splits)
  qed
  then have "evaluate_models gm duration ?c' mode batch_size (Some names) max_duration
        (models_of c) []
      = evaluate_models gm duration c mode batch_size (Some names) max_duration
        (models_of c) []"
    by (rule evaluate_models_model_cong)
  with models have "evaluate_dataset gm duration dataset_name ?c' mode batch_size (Some names)
        max_duration
      = evaluate_dataset gm duration dataset_name c mode batch_size (Some names) max_duration"
    by (simp only: evaluate_dataset_def)
  with keys show ?thesis by blast
qed

theorem only_named_models_evaluated_witness:
  "evaluate_dataset count_metrics signal_duration ''d''
     [(''original'', five_originals), (''m'', five_resynthesized), (''n'', [])]
     ''batch'' 2 (Some [''m'']) 120
     = Inr (''d_evaluation_results.json'', [(''m'', [(''n_samples'', Num (7656119366529843 / 2 ^ 51))])])
   \<and> fst ` set [(''m'', [(''n_samples'', Num (7656119366529843 / 2 ^ 51))])]
     = set [''m''] \<inter> set (models_of
         [(''original'', five_originals), (''m'', five_resynthesized), (''n'', [])])
   \<and> evaluate_dataset count_metrics signal_duration ''d''
     [(''original'', five_originals), (''m'', five_resynthesized), (''n'', five_resynthesized)]
     ''batch'' 2 (Some [''m'']) 120
     = evaluate_dataset count_metrics signal_duration ''d''
     [(''original'', five_originals), (''m'', five_resynthesized), (''n'', [])]
     ''batch'' 2 (Some [''m'']) 120"
proof -
  have run: "evaluate_dataset count_metrics signal_duration ''d''
     [(''original'', five_originals), (''m'', five_resynthesized), (''n'', [])]
     ''batch'' 2 (Some [''m'']) 120
     = Inr (''d_evaluation_results.json'', [(''m'', [(''n_samples'', Num (7656119366529843 / 2 ^ 51))])])"
    by (simp add: run_defs five_originals_def five_resynthesized_def)
  note inst = only_named_models_evaluated [of count_metrics signal_duration "''d''"
      "[(''original'', five_originals), (''m'', five_resynthesized), (''n'', [])]"
      "''batch''" 2 "[''m'']" 120 "\<lambda>key split. five_resynthesized"]
  have keys: "fst ` set [(''m'', [(''n_samples'', Num (7656119366529843 / 2 ^ 51))])]
     = set [''m''] \<inter> set (models_of
         [(''original'', five_originals), (''m'', five_resynthesized), (''n'', [])])"
    using inst [THEN conjunct1, rule_format, OF run] .
  have same: "evaluate_dataset count_metrics signal_duration ''d''
     [(''original'', five_originals), (''m'', five_resynthesized), (''n'', five_resynthesized)]
     ''batch'' 2 (Some [''m'']) 120
     = evaluate_dataset count_metrics signal_duration ''d''
     [(''original'', five_originals), (''m'', five_resynthesized), (''n'', [])]
     ''batch'' 2 (Some [''m'']) 120"
    using inst [THEN conjunct2] by simp
  from run keys same show ?thesis by (simp only: simp_thms)
qed

section \<open>A model with an empty split\<close>

lemma evaluate_model_empty_split:
  assumes "map_of c model = Some []" and "map_of c ''original'' = Some original"
  shows "evaluate_model gm duration c model mode batch_size max_duration
         = (case original of
              [] \<Rightarrow> Inr []
            | entry # rest \<Rightarrow> Inl (KeyError (entry_id entry)))"
proof (cases original)
  case Nil
  with assms show ?thesis
    by (simp add: evaluate_model_eq aggregate_def mean_metrics_def)
next
  case (Cons entry rest)
  have "build_id_dict [] (entry_id entry) = None"
    by (simp add: build_id_dict_def)
  then have "process_batch gm duration (entry # rest) (build_id_dict []) [] max_duration
      = Inl (KeyError (entry_id entry))"
    by (rule process_batch_first_missing)
  with assms Cons show ?thesis by (simp add: evaluate_model_eq)
qed

lemma evaluate_model_empty_original:
  assumes "model \<in> fst ` set c" and "map_of c ''original'' = Some []"
  shows "evaluate_model gm duration c model mode batch_size max_duration = Inr []"
proof -
  from assms(1) obtain split where "map_of c model = Some split"
    by (cases "map_of c model") (auto simp: map_of_eq_None_iff)
  with assms(2) show ?thesis
    by (simp add: evaluate_model_eq aggregate_def mean_metrics_def)
qed

lemma evaluate_models_complete:
  "\<forall>model \<in> set models. \<not> skipped specific_models model \<longrightarrow>
     (\<exists>r. evaluate_model gm duration c model mode batch_size max_duration = Inr r) \<Longrightarrow>
   \<exists>result_data'. evaluate_models gm duration c mode batch_size specific_models max_duration
       models result_data = Inr result_data'"
  by (induction models arbitrary: result_data) auto

lemma models_of_subset: "set (models_of c) \<subseteq> fst ` set c"
  by (auto simp: models_of_def)

text \<open>
  Claim C1, as the code has it. The id-to-array mapping of a model with an empty split is
  empty, so the first original entry already raises the key-lookup error. For every dataset
  in which an evaluated model has an empty split: when the original split has an entry, the
  evaluation of that model fails with the key-lookup error for the first entry's id and the
  run aborts, writing nothing for any model; when the original split is empty too, the run
  completes and the model's result is the empty mapping, with no metric in it at all.
\<close>

theorem empty_model_split:
  assumes "model \<in> set (models_of c)" and "\<not> skipped specific_models model"
    and "map_of c model = Some []" and "map_of c ''original'' = Some original"
  shows "evaluate_model gm duration c model mode batch_size max_duration
         = (case original of
              [] \<Rightarrow> Inr []
            | entry # rest \<Rightarrow> Inl (KeyError (entry_id entry)))
       \<and> (original \<noteq> [] \<longrightarrow>
            (\<exists>k. evaluate_dataset gm duration dataset_name c mode batch_size specific_models
                   max_duration = Inl (KeyError k)))
       \<and> (original = [] \<longrightarrow>
            (\<exists>result_data.
               evaluate_dataset gm duration dataset_name c mode batch_size specific_models
                 max_duration = Inr (output_file_name dataset_name, result_data)
               \<and> map_of result_data model = Some []))"
proof -
  note one = evaluate_model_empty_split [OF assms(3,4), of gm duration mode batch_size
      max_duration]
  have aborts: "original \<noteq> [] \<longrightarrow>
      (\<exists>k. evaluate_dataset gm duration dataset_name c mode batch_size specific_models
             max_duration = Inl (KeyError k))"
  proof
    assume "original \<noteq> []"
    then obtain entry rest where "original = entry # rest" by (cases original) auto
    with one have "evaluate_model gm duration c model mode batch_size max_duration
        = Inl (KeyError (entry_id entry))" by simp
    from evaluate_models_abort [OF assms(1,2) this]
    obtain k where "evaluate_models gm duration c mode batch_size specific_models max_duration
        (models_of c) [] = Inl (KeyError k)" by blast
    then have "evaluate_dataset gm duration dataset_name c mode batch_size specific_models
        max_duration = Inl (KeyError k)"
      by (simp add: evaluate_dataset_def)
    then show "\<exists>k. evaluate_dataset gm duration dataset_name c mode batch_size specific_models
        max_duration = Inl (KeyError k)" ..
  qed
  have completes: "original = [] \<longrightarrow>
      (\<exists>result_data.
         evaluate_dataset gm duration dataset_name c mode batch_size specific_models
           max_duration = Inr (output_file_name dataset_name, result_data)
         \<and> map_of result_data model = Some [])"
  proof
    assume empty: "original = []"
    have "\<forall>m \<in> set (models_of c). \<not> skipped specific_models m \<longrightarrow>
        (\<exists>r. evaluate_model gm duration c m mode batch_size max_duration = Inr r)"
    proof (intro ballI impI)
      fix m assume "m \<in> set (models_of c)"
      then have "m \<in> fst ` set c" using models_of_subset by blast
      then have "evaluate_model gm duration c m mode batch_size max_duration = Inr []"
        using assms(4) empty by (simp add: evaluate_model_empty_original)
      then show "\<exists>r. evaluate_model gm duration c m mode batch_size max_duration = Inr r" ..
    qed
    from evaluate_models_complete [OF this]
    obtain result_data where run: "evaluate_models gm duration c mode batch_size
        specific_models max_duration (models_of c) [] = Inr result_data" by blast
    have "map_of result_data model = Some []"
      using evaluate_models_lookup [OF run, of model] assms(1,2) one empty by simp
    moreover have "evaluate_dataset gm duration dataset_name c mode batch_size specific_models
        max_duration = Inr (output_file_name dataset_name, result_data)"
      using run by (simp add: evaluate_dataset_def)
    ultimately show "\<exists>result_data.
         evaluate_dataset gm duration dataset_name c mode batch_size specific_models
           max_duration = Inr (output_file_name dataset_name, result_data)
         \<and> map_of result_data model = Some []" by blast
  qed
  from one aborts completes show ?thesis by blast
qed

theorem empty_model_split_witness:
  "evaluate_dataset count_metrics signal_duration ''d''
     [(''original'', []), (''m'', []), (''n'', five_resynthesized)] ''streaming'' 100 None 120
     = Inr (''d_evaluation_results.json'', [(''m'', []), (''n'', [])])
   \<and> (\<exists>result_data.
        evaluate_dataset count_metrics signal_duration ''d''
          [(''original'', []), (''m'', []), (''n'', five_resynthesized)] ''streaming'' 100 None
          120
        = Inr (''d_evaluation_results.json'', result_data)
        \<and> map_of result_data ''m'' = Some [])
   \<and> evaluate_dataset count_metrics signal_duration ''d''
     [(''original'', five_originals), (''n'', five_resynthesized), (''m'', [])]
     ''streaming'' 100 None 120
     = Inl (KeyError ''1'')
   \<and> (\<exists>k. evaluate_dataset count_metrics signal_duration ''d''
     [(''original'', five_originals), (''n'', five_resynthesized), (''m'', [])]
     ''streaming'' 100 None 120
     = Inl (KeyError k))"
proof -
  have run_empty: "evaluate_dataset count_metrics signal_duration ''d''
     [(''original'', []), (''m'', []), (''n'', five_resynthesized)] ''streaming'' 100 None 120
     = Inr (''d_evaluation_results.json'', [(''m'', []), (''n'', [])])"
    by (simp add: run_defs five_resynthesized_def)
  have run_abort: "evaluate_dataset count_metrics signal_duration ''d''
     [(''original'', five_originals), (''n'', five_resynthesized), (''m'', [])]
     ''streaming'' 100 None 120
     = Inl (KeyError ''1'')"
    by (simp add: run_defs five_originals_def five_resynthesized_def)
  have name: "output_file_name ''d'' = ''d_evaluation_results.json''"
    by (simp add: output_file_name_def)
  have m1: "''m'' \<in> set (models_of [(''original'', []), (''m'', []), (''n'', five_resynthesized)])"
    by (simp add: models_of_def)
  have m2: "''m'' \<in> set (models_of
      [(''original'', five_originals), (''n'', five_resynthesized), (''m'', [])])"
    by (simp add: models_of_def)
  have sel: "\<not> skipped None ''m''" by (simp add: skipped_def)
  have s1: "map_of [(''original'', []), (''m'', []), (''n'', five_resynthesized)] ''m''
      = Some []" by simp
  have o1: "map_of [(''original'', []), (''m'', []), (''n'', five_resynthesized)] ''original''
      = Some []" by simp
  have s2: "map_of [(''original'', five_originals), (''n'', five_resynthesized), (''m'', [])]
      ''m'' = Some []" by simp
  have o2: "map_of [(''original'', five_originals), (''n'', five_resynthesized), (''m'', [])]
      ''original'' = Some five_originals" by simp
  have nonempty: "five_originals \<noteq> []" by (simp add: five_originals_def)
  have completes: "\<exists>result_data.
        evaluate_dataset count_metrics signal_duration ''d''
          [(''original'', []), (''m'', []), (''n'', five_resynthesized)] ''streaming'' 100 None
          120
        = Inr (''d_evaluation_results.json'', result_data)
        \<and> map_of result_data ''m'' = Some []"
    using empty_model_split [OF m1 sel s1 o1, of count_metrics signal_duration "''streaming''"
        100 120 "''d''", THEN conjunct2, THEN conjunct2] name
    by simp
  have aborts: "\<exists>k. evaluate_dataset count_metrics signal_duration ''d''
     [(''original'', five_originals), (''n'', five_resynthesized), (''m'', [])]
     ''streaming'' 100 None 120
     = Inl (KeyError k)"
    using empty_model_split [OF m2 sel s2 o2, of count_metrics signal_duration "''streaming''"
        100 120 "''d''", THEN conjunct2, THEN conjunct1] nonempty
    by simp
  from run_empty completes run_abort aborts show ?thesis by (simp only: simp_thms)
qed

text \<open>
  Claim C1 as stated fails: with one original entry, an empty split \<^verbatim>\<open>m\<close> and a complete
  split \<^verbatim>\<open>n\<close>, the run does not complete; it ends in the key-lookup error for the entry's id
  and nothing is written for \<^verbatim>\<open>n\<close>.
\<close>

theorem empty_model_split_aborts_run:
  "map_of [(''original'', [utterance ''1'' [1, 2, 3, 4]]), (''m'', []),
           (''n'', [utterance ''1'' [1, 2, 3]])] ''m'' = Some []
   \<and> evaluate_dataset count_metrics signal_duration ''d''
       [(''original'', [utterance ''1'' [1, 2, 3, 4]]), (''m'', []),
        (''n'', [utterance ''1'' [1, 2, 3]])] ''streaming'' 100 None 120
     = Inl (KeyError ''1'')"
  by (simp add: run_defs)

section \<open>Aggregation\<close>

lemma collected_append_value:
  "collected (append_value k v aggregated) k' =
     (if k' = k then collected aggregated k @ [v] else collected aggregated k')"
  by (simp add: collected_def append_value_def update_conv' split: option.splits)

lemma keys_append_value:
  "fst ` set (append_value k v aggregated) = insert k (fst ` set aggregated)"
  by (simp add: append_value_def dom_update)

lemma collected_fold_items:
  "collected (fold (\<lambda>(k, v). append_value k v) items aggregated) k =
     collected aggregated k @ values_of k items"
  by (induction items arbitrary: aggregated)
    (auto simp: collected_append_value values_of_def)

lemma keys_fold_items:
  "fst ` set (fold (\<lambda>(k, v). append_value k v) items aggregated) =
     fst ` set aggregated \<union> fst ` set items"
proof (induction items arbitrary: aggregated)
  case Nil
  show ?case by simp
next
  case (Cons item items)
  obtain k v where item: "item = (k, v)" by (cases item)
  show ?case by (simp add: item Cons.IH keys_append_value)
qed

lemma values_of_append: "values_of k (xs @ ys) = values_of k xs @ values_of k ys"
  by (simp add: values_of_def)

lemma collected_fold_records:
  "collected (fold (\<lambda>metrics aggregated. fold (\<lambda>(k, v). append_value k v) metrics aggregated)
       metrics_results aggregated) k =
     collected aggregated k @ values_of k (concat metrics_results)"
  by (induction metrics_results arbitrary: aggregated)
    (simp_all add: collected_fold_items values_of_append values_of_def)

lemma keys_fold_records:
  "fst ` set (fold (\<lambda>metrics aggregated. fold (\<lambda>(k, v). append_value k v) metrics aggregated)
       metrics_results aggregated) =
     fst ` set aggregated \<union> fst ` set (concat metrics_results)"
proof (induction metrics_results arbitrary: aggregated)
  case Nil
  show ?case by simp
next
  case (Cons metrics metrics_results)
  show ?case by (simp add: Cons.IH keys_fold_items image_Un Un_assoc)
qed

lemma collected_Nil: "collected [] k = []"
  by (simp add: collected_def)

lemma collected_aggregate:
  "collected (aggregate metrics_results) k = values_of k (concat metrics_results)"
  by (simp add: aggregate_def collected_fold_records collected_Nil)

lemma keys_aggregate:
  "fst ` set (aggregate metrics_results) = fst ` set (concat metrics_results)"
  by (simp add: aggregate_def keys_fold_records)

lemma map_of_collected:
  "map_of aggregated k = (if k \<in> fst ` set aggregated then Some (collected aggregated k) else None)"
proof (cases "map_of aggregated k")
  case None
  then show ?thesis by (simp add: map_of_eq_None_iff)
next
  case (Some vs)
  then have "k \<in> fst ` set aggregated"
    by (metis map_of_eq_None_iff option.distinct(1))
  with Some show ?thesis by (simp add: collected_def)
qed

lemma map_of_mean_metrics:
  "map_of (mean_metrics aggregated) k =
     map_option (\<lambda>v. if v \<noteq> [] then nanmean v else NaN) (map_of aggregated k)"
  by (simp add: mean_metrics_def map_of_map)

lemma map_of_model_result:
  "map_of (mean_metrics (aggregate metrics_results)) k =
     (if k \<in> fst ` set (concat metrics_results)
      then Some (if values_of k (concat metrics_results) \<noteq> []
                 then nanmean (values_of k (concat metrics_results)) else NaN)
      else None)"
  by (simp add: map_of_mean_metrics map_of_collected [of "aggregate metrics_results"]
      keys_aggregate collected_aggregate)

lemma mset_numbers:
  "mset (numbers vs) =
     image_mset (\<lambda>v. case v of Num x \<Rightarrow> x | other \<Rightarrow> 0)
       (filter_mset (\<lambda>v. case v of Num x \<Rightarrow> True | other \<Rightarrow> False) (mset vs))"
  by (induction vs rule: numbers.induct) simp_all

lemma exact_mean_mset:
  assumes "mset vs' = mset vs"
  shows "exact_mean vs' = exact_mean vs"
proof -
  have eq: "mset (numbers vs') = mset (numbers vs)"
    using assms by (simp add: mset_numbers)
  have "sum_list (numbers vs') = sum_list (numbers vs)"
    using arg_cong [OF eq, of sum_mset] by (simp only: sum_mset_sum_list)
  moreover have "length (numbers vs') = length (numbers vs)"
    using arg_cong [OF eq, of size] by (simp only: size_mset)
  moreover have "(numbers vs' = []) = (numbers vs = [])"
    using arg_cong [OF eq, of "\<lambda>m. m = {#}"] by (simp only: mset_zero_iff)
  ultimately show ?thesis by (simp add: exact_mean_def)
qed

lemma mset_concat_sum: "mset (concat xss) = sum_mset (image_mset mset (mset xss))"
  by (induction xss) simp_all

lemma mset_concat_cong:
  assumes "mset xss' = mset xss"
  shows "mset (concat xss') = mset (concat xss)"
  using assms by (simp only: mset_concat_sum)

lemma process_batch_permuted:
  assumes "process_batch gm duration entries id_dict metrics_results max_duration = Inr res"
    and "mset entries' = mset entries"
  shows "\<exists>res'. process_batch gm duration entries' id_dict metrics_results max_duration = Inr res'
           \<and> mset res' = mset res"
proof -
  have present: "\<forall>e \<in> set entries. id_dict (entry_id e) \<noteq> None"
    using assms(1) by (rule process_batch_Inr_present)
  have "set entries' = set entries"
    using assms(2) by (rule mset_eq_setD)
  with present have present': "\<forall>e \<in> set entries'. id_dict (entry_id e) \<noteq> None" by simp
  have res: "res = metrics_results
      @ concat (map (contribution gm duration id_dict max_duration) entries)"
    using assms(1) process_batch_present [OF present, of gm duration metrics_results max_duration]
    by simp
  have "mset (map (contribution gm duration id_dict max_duration) entries')
      = mset (map (contribution gm duration id_dict max_duration) entries)"
    using assms(2) by simp
  then have "mset (concat (map (contribution gm duration id_dict max_duration) entries'))
      = mset (concat (map (contribution gm duration id_dict max_duration) entries))"
    by (rule mset_concat_cong)
  with res have "mset (metrics_results
      @ concat (map (contribution gm duration id_dict max_duration) entries')) = mset res"
    by simp
  with process_batch_present [OF present', of gm duration metrics_results max_duration]
  show ?thesis by blast
qed

lemma mset_reverse3: "mset [c, b, a] = mset [a, b, c]"
  by (simp add: add_mset_commute)

lemma values_of_empty_iff: "(values_of k items = []) = (k \<notin> fst ` set items)"
  by (induction items) (auto simp: values_of_def)

lemma reported_mean:
  "map_of (mean_metrics (aggregate metrics_results)) k =
     (if k \<in> fst ` set (aggregate metrics_results)
      then Some (nanmean (collected (aggregate metrics_results) k))
      else None)"
  by (simp add: map_of_model_result keys_aggregate collected_aggregate values_of_empty_iff)

lemma keys_mean_metrics: "fst ` set (mean_metrics aggregated) = fst ` set aggregated"
  by (force simp: mean_metrics_def)

lemma collected_mset:
  assumes "mset metrics_results' = mset metrics_results"
  shows "mset (collected (aggregate metrics_results') k)
         = mset (collected (aggregate metrics_results) k)"
proof -
  have "mset (concat metrics_results') = mset (concat metrics_results)"
    using assms by (rule mset_concat_cong)
  then show ?thesis by (simp add: collected_aggregate values_of_def)
qed

lemma keys_mset:
  assumes "mset metrics_results' = mset metrics_results"
  shows "fst ` set (mean_metrics (aggregate metrics_results'))
         = fst ` set (mean_metrics (aggregate metrics_results))"
proof -
  have "mset (concat metrics_results') = mset (concat metrics_results)"
    using assms by (rule mset_concat_cong)
  then have "set (concat metrics_results') = set (concat metrics_results)"
    by (rule mset_eq_setD)
  then show ?thesis by (simp add: keys_mean_metrics keys_aggregate)
qed

text \<open>
  Claim C7, as the code has it. For every list of per-entry metrics records and every
  permutation of it, the aggregation has the same metric names and collects, for every
  metric name, the same values, in another order; the mean of these values in exact
  arithmetic is therefore the same. What is reported for a metric name is the float mean of
  the collected values, taken in the order in which they were collected. Processing the
  entries in another order, when they are processed without error, is without error too and
  gives a permutation of the records.
\<close>

theorem aggregation_same_values_any_order:
  "(mset metrics_results' = mset metrics_results \<longrightarrow>
      fst ` set (mean_metrics (aggregate metrics_results'))
        = fst ` set (mean_metrics (aggregate metrics_results))
      \<and> (\<forall>k. mset (collected (aggregate metrics_results') k)
                = mset (collected (aggregate metrics_results) k)
             \<and> exact_mean (collected (aggregate metrics_results') k)
                = exact_mean (collected (aggregate metrics_results) k)))
   \<and> (\<forall>k. map_of (mean_metrics (aggregate metrics_results)) k =
           (if k \<in> fst ` set (aggregate metrics_results)
            then Some (nanmean (collected (aggregate metrics_results) k))
            else None))
   \<and> (mset entries' = mset entries
        \<and> process_batch gm duration entries id_dict [] max_duration = Inr res \<longrightarrow>
      (\<exists>res'. process_batch gm duration entries' id_dict [] max_duration = Inr res'
         \<and> mset res' = mset res))"
proof (intro conjI impI allI)
  assume "mset metrics_results' = mset metrics_results"
  then show "fst ` set (mean_metrics (aggregate metrics_results'))
      = fst ` set (mean_metrics (aggregate metrics_results))"
    by (rule keys_mset)
next
  fix k
  assume "mset metrics_results' = mset metrics_results"
  then show "mset (collected (aggregate metrics_results') k)
      = mset (collected (aggregate metrics_results) k)"
    by (rule collected_mset)
next
  fix k
  assume "mset metrics_results' = mset metrics_results"
  then have "mset (collected (aggregate metrics_results') k)
      = mset (collected (aggregate metrics_results) k)"
    by (rule collected_mset)
  then show "exact_mean (collected (aggregate metrics_results') k)
      = exact_mean (collected (aggregate metrics_results) k)"
    by (rule exact_mean_mset)
next
  fix k
  show "map_of (mean_metrics (aggregate metrics_results)) k =
      (if k \<in> fst ` set (aggregate metrics_results)
       then Some (nanmean (collected (aggregate metrics_results) k))
       else None)"
    by (rule reported_mean)
next
  assume "mset entries' = mset entries
      \<and> process_batch gm duration entries id_dict [] max_duration = Inr res"
  then show "\<exists>res'. process_batch gm duration entries' id_dict [] max_duration = Inr res'
      \<and> mset res' = mset res"
    using process_batch_permuted by blast
qed

theorem aggregation_same_values_any_order_witness:
  "collected (aggregate [[(''a'', Num (5404319552844595 / 2 ^ 54))],
                         [(''a'', Num (3602879701896397 / 2 ^ 54))],
                         [(''a'', Num (3602879701896397 / 2 ^ 55))]]) ''a''
     = [Num (5404319552844595 / 2 ^ 54), Num (3602879701896397 / 2 ^ 54),
        Num (3602879701896397 / 2 ^ 55)]
   \<and> collected (aggregate [[(''a'', Num (3602879701896397 / 2 ^ 55))],
                         [(''a'', Num (3602879701896397 / 2 ^ 54))],
                         [(''a'', Num (5404319552844595 / 2 ^ 54))]]) ''a''
     = [Num (3602879701896397 / 2 ^ 55), Num (3602879701896397 / 2 ^ 54),
        Num (5404319552844595 / 2 ^ 54)]
   \<and> exact_mean (collected (aggregate [[(''a'', Num (5404319552844595 / 2 ^ 54))],
                                     [(''a'', Num (3602879701896397 / 2 ^ 54))],
                                     [(''a'', Num (3602879701896397 / 2 ^ 55))]]) ''a'')
     = exact_mean (collected (aggregate [[(''a'', Num (3602879701896397 / 2 ^ 55))],
                                       [(''a'', Num (3602879701896397 / 2 ^ 54))],
                                       [(''a'', Num (5404319552844595 / 2 ^ 54))]]) ''a'')
   \<and> exact_mean [Num (3602879701896397 / 2 ^ 55), Num (3602879701896397 / 2 ^ 54),
                 Num (5404319552844595 / 2 ^ 54)]
     = Some (21617278211378381 / (3 * 2 ^ 55))
   \<and> map_of (mean_metrics (aggregate [[(''a'', Num (3602879701896397 / 2 ^ 55))],
                                    [(''a'', Num (3602879701896397 / 2 ^ 54))],
                                    [(''a'', Num (5404319552844595 / 2 ^ 54))]])) ''a''
     = Some (nanmean [Num (3602879701896397 / 2 ^ 55), Num (3602879701896397 / 2 ^ 54),
                      Num (5404319552844595 / 2 ^ 54)])
   \<and> process_batch count_metrics signal_duration
        [utterance ''1'' [1, 2, 3, 4], utterance ''2'' [1, 2], utterance ''3'' [1]]
        (build_id_dict five_resynthesized) [] 120
     = Inr [[(''n_samples'', Num 4)], [(''n_samples'', Num 2)], [(''n_samples'', Num 2)]]
   \<and> (\<exists>res'. process_batch count_metrics signal_duration
        [utterance ''3'' [1], utterance ''2'' [1, 2], utterance ''1'' [1, 2, 3, 4]]
        (build_id_dict five_resynthesized) [] 120 = Inr res'
      \<and> mset res'
        = mset [[(''n_samples'', Num 4)], [(''n_samples'', Num 2)], [(''n_samples'', Num 2)]])"
proof -
  let ?rs = "[[(''a'', Num (3602879701896397 / 2 ^ 55))],
              [(''a'', Num (3602879701896397 / 2 ^ 54))],
              [(''a'', Num (5404319552844595 / 2 ^ 54))]]"
  let ?rs' = "[[(''a'', Num (5404319552844595 / 2 ^ 54))],
               [(''a'', Num (3602879701896397 / 2 ^ 54))],
               [(''a'', Num (3602879701896397 / 2 ^ 55))]]"
  have h: "mset ?rs' = mset ?rs"
    by (rule mset_reverse3)
  have c: "collected (aggregate ?rs) ''a''
     = [Num (3602879701896397 / 2 ^ 55), Num (3602879701896397 / 2 ^ 54),
        Num (5404319552844595 / 2 ^ 54)]"
    by (simp add: collected_def aggregate_def append_value_def)
  have c': "collected (aggregate ?rs') ''a''
     = [Num (5404319552844595 / 2 ^ 54), Num (3602879701896397 / 2 ^ 54),
        Num (3602879701896397 / 2 ^ 55)]"
    by (simp add: collected_def aggregate_def append_value_def)
  have key: "''a'' \<in> fst ` set (aggregate ?rs)"
    by (simp add: aggregate_def append_value_def)
  have m: "exact_mean [Num (3602879701896397 / 2 ^ 55), Num (3602879701896397 / 2 ^ 54),
                 Num (5404319552844595 / 2 ^ 54)]
     = Some (21617278211378381 / (3 * 2 ^ 55))"
    by (simp add: exact_mean_def)
  have e: "mset [utterance ''3'' [1], utterance ''2'' [1, 2], utterance ''1'' [1, 2, 3, 4]]
     = mset [utterance ''1'' [1, 2, 3, 4], utterance ''2'' [1, 2], utterance ''3'' [1]]"
    by (rule mset_reverse3)
  have p: "process_batch count_metrics signal_duration
        [utterance ''1'' [1, 2, 3, 4], utterance ''2'' [1, 2], utterance ''3'' [1]]
        (build_id_dict five_resynthesized) [] 120
     = Inr [[(''n_samples'', Num 4)], [(''n_samples'', Num 2)], [(''n_samples'', Num 2)]]"
    by (simp add: run_defs five_resynthesized_def)
  note inst = aggregation_same_values_any_order
    [where metrics_results = ?rs and metrics_results' = ?rs'
       and entries = "[utterance ''1'' [1, 2, 3, 4], utterance ''2'' [1, 2], utterance ''3'' [1]]"
       and entries' = "[utterance ''3'' [1], utterance ''2'' [1, 2], utterance ''1'' [1, 2, 3, 4]]"
       and gm = count_metrics and duration = signal_duration
       and id_dict = "build_id_dict five_resynthesized" and max_duration = 120
       and res = "[[(''n_samples'', Num 4)], [(''n_samples'', Num 2)], [(''n_samples'', Num 2)]]"]
  have means: "exact_mean (collected (aggregate ?rs') ''a'')
     = exact_mean (collected (aggregate ?rs) ''a'')"
    using inst [THEN conjunct1, rule_format, OF h, THEN conjunct2, rule_format, of "''a''"]
    by (rule conjunct2)
  have reported: "map_of (mean_metrics (aggregate ?rs)) ''a''
     = Some (nanmean [Num (3602879701896397 / 2 ^ 55), Num (3602879701896397 / 2 ^ 54),
                      Num (5404319552844595 / 2 ^ 54)])"
    using inst [THEN conjunct2, THEN conjunct1, rule_format, of "''a''"] key c
    by (simp only: if_True)
  have entries: "\<exists>res'. process_batch count_metrics signal_duration
        [utterance ''3'' [1], utterance ''2'' [1, 2], utterance ''1'' [1, 2, 3, 4]]
        (build_id_dict five_resynthesized) [] 120 = Inr res'
      \<and> mset res'
        = mset [[(''n_samples'', Num 4)], [(''n_samples'', Num 2)], [(''n_samples'', Num 2)]]"
    using inst [THEN conjunct2, THEN conjunct2, rule_format, OF conjI, OF e p] .
  from c' c means m reported p entries show ?thesis by (simp only: simp_thms)
qed

text \<open>
  Claim C7 as stated fails: the means reported are float means and depend on the order. The
  floats nearest to 0.1, 0.2 and 0.3, collected in this order, have the mean
  0.20000000000000004; collected in the opposite order, 0.19999999999999998.
\<close>

theorem float_mean_depends_on_order:
  "mset [[(''a'', Num (5404319552844595 / 2 ^ 54))],
         [(''a'', Num (3602879701896397 / 2 ^ 54))],
         [(''a'', Num (3602879701896397 / 2 ^ 55))]]
     = mset [[(''a'', Num (3602879701896397 / 2 ^ 55))],
             [(''a'', Num (3602879701896397 / 2 ^ 54))],
             [(''a'', Num (5404319552844595 / 2 ^ 54))]]
   \<and> mean_metrics (aggregate [[(''a'', Num (3602879701896397 / 2 ^ 55))],
                              [(''a'', Num (3602879701896397 / 2 ^ 54))],
                              [(''a'', Num (5404319552844595 / 2 ^ 54))]])
     = [(''a'', Num (7205759403792795 / 2 ^ 55))]
   \<and> mean_metrics (aggregate [[(''a'', Num (5404319552844595 / 2 ^ 54))],
                              [(''a'', Num (3602879701896397 / 2 ^ 54))],
                              [(''a'', Num (3602879701896397 / 2 ^ 55))]])
     = [(''a'', Num (7205759403792793 / 2 ^ 55))]
   \<and> map_of (mean_metrics (aggregate [[(''a'', Num (5404319552844595 / 2 ^ 54))],
                                      [(''a'', Num (3602879701896397 / 2 ^ 54))],
                                      [(''a'', Num (3602879701896397 / 2 ^ 55))]])) ''a''
     \<noteq> map_of (mean_metrics (aggregate [[(''a'', Num (3602879701896397 / 2 ^ 55))],
                                        [(''a'', Num (3602879701896397 / 2 ^ 54))],
                                        [(''a'', Num (5404319552844595 / 2 ^ 54))]])) ''a''"
proof -
  have h: "mset [[(''a'', Num (5404319552844595 / 2 ^ 54))],
         [(''a'', Num (3602879701896397 / 2 ^ 54))],
         [(''a'', Num (3602879701896397 / 2 ^ 55))]]
     = mset [[(''a'', Num (3602879701896397 / 2 ^ 55))],
             [(''a'', Num (3602879701896397 / 2 ^ 54))],
             [(''a'', Num (5404319552844595 / 2 ^ 54))]]"
    by (rule mset_reverse3)
  have up: "mean_metrics (aggregate [[(''a'', Num (3602879701896397 / 2 ^ 55))],
                              [(''a'', Num (3602879701896397 / 2 ^ 54))],
                              [(''a'', Num (5404319552844595 / 2 ^ 54))]])
     = [(''a'', Num (7205759403792795 / 2 ^ 55))]"
    by (simp add: mean_metrics_def aggregate_def append_value_def f64_defs)
  have down: "mean_metrics (aggregate [[(''a'', Num (5404319552844595 / 2 ^ 54))],
                              [(''a'', Num (3602879701896397 / 2 ^ 54))],
                              [(''a'', Num (3602879701896397 / 2 ^ 55))]])
     = [(''a'', Num (7205759403792793 / 2 ^ 55))]"
    by (simp add: mean_metrics_def aggregate_def append_value_def f64_defs)
  have "map_of [(''a'', Num (7205759403792793 / 2 ^ 55))] ''a''
     \<noteq> map_of [(''a'', Num (7205759403792795 / 2 ^ 55))] ''a''"
    by simp
  with h up down show ?thesis by (simp only: simp_thms)
qed

end
